theory Spec2Isabelle
  imports Main "HOL-Library.Word"
begin

section \<open>The loadconfig configuration loader (loadconfig.c)\<close>

text \<open>
  The theory embeds the file-processing core of \<^verbatim>\<open>src/loadconfig.c\<close>:
  \<^verbatim>\<open>GetConfigData\<close> and its helpers, \<^verbatim>\<open>ProcessConfigFile\<close>,
  \<^verbatim>\<open>ProcessConfigData\<close>, \<^verbatim>\<open>ProcessConfigLine\<close>, the four directive
  functions and \<^verbatim>\<open>ProcessVariableAssignment\<close>.

  What the C code gets from outside is a parameter of the model (record \<open>env\<close>):
  the file system (\<^verbatim>\<open>lstat\<close>, \<^verbatim>\<open>fopen\<close>/\<^verbatim>\<open>fread\<close>, \<^verbatim>\<open>opendir\<close>/\<^verbatim>\<open>readdir\<close>),
  the variable server (\<^verbatim>\<open>VAR_SetNameValue\<close>) and the template engine
  (\<^verbatim>\<open>TEMPLATE_StrToFile\<close>). The fields of \<^verbatim>\<open>LoadState\<close> the processing reads or
  writes are a record that every function takes and returns; what the program prints is
  appended to the field \<open>trace\<close>.

  Modelling decisions:
  \<^item> C strings are \<open>string\<close>s without the terminating NUL; a pointer that can be
    \<^verbatim>\<open>NULL\<close> where the code tests it is a \<open>string option\<close>. \<^verbatim>\<open>pState\<close> is never
    \<^verbatim>\<open>NULL\<close>, and neither are the working buffer and the configuration buffer at
    their only call sites, so those tests have no branch here.
  \<^item> \<^verbatim>\<open>strdup\<close> and \<^verbatim>\<open>calloc\<close> succeed.
  \<^item> \<^verbatim>\<open>int lineno\<close> is a 32-bit word, read as a signed number by \<open>sint\<close>:
    \<^verbatim>\<open>pState->lineno++\<close> at \<^verbatim>\<open>INT_MAX\<close> wraps to \<^verbatim>\<open>INT_MIN\<close> (C leaves
    this overflow undefined; the model takes the two's-complement result). The loop indices \<^verbatim>\<open>i\<close> and \<^verbatim>\<open>lineidx\<close> are natural
    numbers: a buffer of \<open>2^31\<close> bytes or more is out of scope.
  \<^item> The verbose messages on standard output (\<^verbatim>\<open>Processing\<close>, \<^verbatim>\<open>Including\<close>,
    \<^verbatim>\<open>Setting\<close>) are not recorded; the flag \<open>verbose\<close> is carried unchanged.
  \<^item> Include files may include themselves, so the C recursion need not end. The
    functions take a bound \<open>n\<close> on the nesting depth of \<^verbatim>\<open>ProcessConfigFile\<close>
    calls and return \<open>None\<close> when the bound is exceeded.
\<close>

subsection \<open>Error numbers\<close>

text \<open>\<^verbatim>\<open>EOK\<close> comes from the variable server's headers, the others from \<^verbatim>\<open>errno.h\<close> (Linux).\<close>

definition EOK :: int where "EOK = 0"
definition ENOENT :: int where "ENOENT = 2"
definition EINVAL :: int where "EINVAL = 22"
definition ENOTSUP :: int where "ENOTSUP = 95"

subsection \<open>Characters and the C library\<close>

definition NUL :: char where "NUL = CHR 0x00"
definition NL :: char where "NL = CHR 0x0A"

definition CONFIG_TAG :: string where "CONFIG_TAG = ''@config''"

text \<open>
  \<^verbatim>\<open>strtok_r(s, delim, &save)\<close> on a fresh string \<open>s\<close>: skip the leading
  delimiters; with nothing left there is no token. Otherwise the token runs to the next
  delimiter, which is overwritten by NUL, and \<^verbatim>\<open>save\<close> points behind it. When the
  token ends the string, POSIX leaves the saved pointer open: glibc lets it point at the
  terminating NUL (an empty string), musl stores \<^verbatim>\<open>NULL\<close>. The flag \<open>null_save\<close>
  selects the second behaviour. The result is the pair (token, saved pointer).
\<close>

definition strtok_r :: "bool \<Rightarrow> string \<Rightarrow> string \<Rightarrow> string option \<times> string option" where
  "strtok_r null_save s delim =
     (let s1 = dropWhile (\<lambda>c. c \<in> set delim) s in
      if s1 = [] then (None, if null_save then None else Some [])
      else
        let tok = takeWhile (\<lambda>c. c \<notin> set delim) s1;
            rest = dropWhile (\<lambda>c. c \<notin> set delim) s1
        in if rest = [] then (Some tok, if null_save then None else Some [])
           else (Some tok, Some (tl rest)))"

text \<open>
  The C string at the pointer that was handed to \<^verbatim>\<open>strtok_r\<close>, read after the
  call: the leading delimiters are still there, and the string now ends where the token
  ends.
\<close>

definition str_after_strtok :: "string \<Rightarrow> string \<Rightarrow> string" where
  "str_after_strtok s delim =
     takeWhile (\<lambda>c. c \<in> set delim) s @
     takeWhile (\<lambda>c. c \<notin> set delim) (dropWhile (\<lambda>c. c \<in> set delim) s)"

subsection \<open>The environment and the load state\<close>

datatype event =
    Enter string                      \<comment> \<open>\<^verbatim>\<open>printf("ProcessConfigFile: %s")\<close>\<close>
  | Failed string                     \<comment> \<open>\<^verbatim>\<open>fprintf(stderr, "Failed to process %s")\<close>\<close>
  | SetVar string string              \<comment> \<open>a call \<^verbatim>\<open>VAR_SetNameValue(h, name, value)\<close>\<close>
  | LogErr string "string option" "32 word"
      \<comment> \<open>\<^verbatim>\<open>LogError\<close>: message, file name, line number (printed with \<^verbatim>\<open>%d\<close>)\<close>

record 's env =
  lstat_size :: "string \<Rightarrow> nat option"
    \<comment> \<open>\<^verbatim>\<open>st_size\<close> of \<^verbatim>\<open>lstat\<close>, \<open>None\<close> when \<^verbatim>\<open>lstat\<close> fails\<close>
  fopen_read :: "string \<Rightarrow> string option"
    \<comment> \<open>the bytes \<^verbatim>\<open>fread\<close> gets from the file, \<open>None\<close> when \<^verbatim>\<open>fopen\<close> fails\<close>
  opendir_entries :: "string \<Rightarrow> string list option"
    \<comment> \<open>the \<^verbatim>\<open>d_name\<close>s in \<^verbatim>\<open>readdir\<close> order, \<open>None\<close> when \<^verbatim>\<open>opendir\<close> fails\<close>
  TEMPLATE_StrToFile :: "'s \<Rightarrow> string \<Rightarrow> int \<times> string"
    \<comment> \<open>return code and the C string left in the working buffer\<close>
  VAR_SetNameValue :: "'s \<Rightarrow> string \<Rightarrow> string \<Rightarrow> int \<times> 's"
    \<comment> \<open>return code and the server's new state\<close>
  strtok_null_save :: bool
    \<comment> \<open>the C library's \<^verbatim>\<open>strtok_r\<close> stores \<^verbatim>\<open>NULL\<close> at the end of the string\<close>

text \<open>
  \<^verbatim>\<open>LoadState\<close>, without the working buffer, its descriptor and the client name.
  \<open>hVarServer\<close> is the state of the variable server behind the handle, and \<open>trace\<close>
  is what has been printed and which calls the server has received, oldest first.
\<close>

record 's LoadState =
  hVarServer :: 's
  verbose :: bool
  pFileName :: "string option"
  lineno :: "32 word"
  required :: bool
  trace :: "event list"

definition emit :: "event \<Rightarrow> 's LoadState \<Rightarrow> 's LoadState" where
  "emit e st = st\<lparr>trace := trace st @ [e]\<rparr>"

definition LogError :: "'s LoadState \<Rightarrow> string \<Rightarrow> 's LoadState" where
  "LogError st err = emit (LogErr err (pFileName st) (lineno st)) st"

subsection \<open>Reading a configuration file\<close>

definition GetFileSize :: "'s env \<Rightarrow> string \<Rightarrow> nat" where
  "GetFileSize env filename =
     (case lstat_size env filename of Some sz \<Rightarrow> sz | None \<Rightarrow> 0)"

text \<open>
  \<^verbatim>\<open>IsConfigFile\<close> reads \<^verbatim>\<open>taglen\<close> bytes into a local buffer and compares them
  with the tag. The argument is what the stream can deliver. When the stream is shorter
  than the tag the rest of the C buffer is uninitialised; the model takes it not to spell
  the tag.
\<close>

definition IsConfigFile :: "string \<Rightarrow> bool" where
  "IsConfigFile content = (take (length CONFIG_TAG) content = CONFIG_TAG)"

text \<open>
  \<^verbatim>\<open>ReadConfigData\<close> allocates \<open>n + 1\<close> zero bytes and reads up to \<open>n\<close> bytes from
  the start of the file. The zero bytes behind the data are not part of the list: the
  end of the list stands for the first of them.
\<close>

definition ReadConfigData :: "string \<Rightarrow> nat \<Rightarrow> string" where
  "ReadConfigData content n = take n content"

definition GetConfigData :: "'s env \<Rightarrow> string \<Rightarrow> string option" where
  "GetConfigData env filename =
     (let taglen = length CONFIG_TAG;
          filesize = GetFileSize env filename
      in if filesize \<ge> taglen then
           (case fopen_read env filename of
              Some content \<Rightarrow>
                if IsConfigFile content then Some (ReadConfigData content filesize)
                else None
            | None \<Rightarrow> None)
         else None)"

subsection \<open>Variable assignments and the @config directive\<close>

definition ProcessVariableAssignment ::
  "'s env \<Rightarrow> 's LoadState \<Rightarrow> string \<Rightarrow> int \<times> 's LoadState" where
  "ProcessVariableAssignment env st pConfig =
     (let ch = (if CHR ''='' \<in> set pConfig then ''='' else '' '')
      in case strtok_r (strtok_null_save env) pConfig ch of
           (Some pVar, Some pVal) \<Rightarrow>
             (case VAR_SetNameValue env (hVarServer st) pVar pVal of
                (result, h) \<Rightarrow>
                  let st1 = emit (SetVar pVar pVal) (st\<lparr>hVarServer := h\<rparr>)
                  in if result \<noteq> EOK then
                       (if result = ENOENT then (result, LogError st1 ''Variable not found'')
                        else (result, LogError st1 ''Variable assignment failed''))
                     else (result, st1))
         | _ \<Rightarrow> (EINVAL, LogError st ''Invalid Variable Assignment''))"

definition ProcessConfigDirective ::
  "'s LoadState \<Rightarrow> string option \<Rightarrow> int \<times> 's LoadState" where
  "ProcessConfigDirective st pInfo =
     (case pInfo of None \<Rightarrow> (EINVAL, st) | Some info \<Rightarrow> (EOK, st))"

subsection \<open>Directives, lines and files\<close>

text \<open>
  \<^verbatim>\<open>ProcessConfigFile\<close> calls itself through \<^verbatim>\<open>ProcessConfigData\<close>,
  \<^verbatim>\<open>ProcessConfigLine\<close>, \<^verbatim>\<open>ProcessDirective\<close> and the include directives. The
  functions on that path take the recursive call as their argument \<open>file\<close>:
  \<open>file st name\<close> is \<^verbatim>\<open>ProcessConfigFile(pState, name)\<close>, one level deeper. They are
  listed callee first; \<open>ProcessConfigFile\<close> at the end closes the recursion.
\<close>

type_synonym 's file_call = "'s LoadState \<Rightarrow> string option \<Rightarrow> (int \<times> 's LoadState) option"

definition ProcessIncludeDirective ::
  "'s file_call \<Rightarrow> 's LoadState \<Rightarrow> string option \<Rightarrow> (int \<times> 's LoadState) option" where
  "ProcessIncludeDirective file st pFilename =
     (case pFilename of
        None \<Rightarrow> Some (EINVAL, st)
      | Some name \<Rightarrow> file (st\<lparr>required := False\<rparr>) (Some name))"

definition ProcessRequireDirective ::
  "'s file_call \<Rightarrow> 's LoadState \<Rightarrow> string option \<Rightarrow> (int \<times> 's LoadState) option" where
  "ProcessRequireDirective file st pFilename =
     (case pFilename of
        None \<Rightarrow> Some (EINVAL, st)
      | Some name \<Rightarrow> file (st\<lparr>required := True\<rparr>) (Some name))"

text \<open>The \<^verbatim>\<open>while( entry = readdir( configdir ) )\<close> loop, over the entries still to come.\<close>

fun readdir_loop :: "'s file_call \<Rightarrow> 's LoadState \<Rightarrow> string list \<Rightarrow> 's LoadState option" where
  "readdir_loop file st [] = Some st"
| "readdir_loop file st (d_name # entries) =
     (case file (st\<lparr>required := False\<rparr>) (Some d_name) of
        None \<Rightarrow> None
      | Some (rc, st') \<Rightarrow> readdir_loop file st' entries)"

definition ProcessIncludeDirDirective ::
  "'s env \<Rightarrow> 's file_call \<Rightarrow> 's LoadState \<Rightarrow> string option \<Rightarrow> (int \<times> 's LoadState) option" where
  "ProcessIncludeDirDirective env file st pDirname =
     (case pDirname of
        None \<Rightarrow> Some (EINVAL, st)
      | Some dirname \<Rightarrow>
          (case opendir_entries env dirname of
             None \<Rightarrow> Some (EOK, st)
           | Some entries \<Rightarrow>
               (case readdir_loop file st entries of
                  None \<Rightarrow> None
                | Some st' \<Rightarrow> Some (EOK, st'))))"

definition ProcessDirective ::
  "'s env \<Rightarrow> 's file_call \<Rightarrow> 's LoadState \<Rightarrow> string \<Rightarrow> (int \<times> 's LoadState) option" where
  "ProcessDirective env file st pConfigDirective =
     (case strtok_r (strtok_null_save env) pConfigDirective '' '' of
        (pDirective, pArg) \<Rightarrow>
          let directive = str_after_strtok pConfigDirective '' ''
          in if directive = ''@config'' then Some (ProcessConfigDirective st pArg)
             else if directive = ''@include'' then ProcessIncludeDirective file st pArg
             else if directive = ''@require'' then ProcessRequireDirective file st pArg
             else if directive = ''@includedir'' then
               ProcessIncludeDirDirective env file st pArg
             else Some (ENOTSUP, LogError st ''unknown directive''))"

definition ProcessConfigLine ::
  "'s env \<Rightarrow> 's file_call \<Rightarrow> 's LoadState \<Rightarrow> string \<Rightarrow> (int \<times> 's LoadState) option" where
  "ProcessConfigLine env file st pConfigLine =
     (case pConfigLine of
        [] \<Rightarrow> Some (EOK, st)
      | c # cs \<Rightarrow>
          if c = CHR ''#'' then Some (EOK, st)
          else if c = CHR ''@'' then ProcessDirective env file st pConfigLine
          else Some (ProcessVariableAssignment env st pConfigLine))"

text \<open>
  \<open>ProcessConfigData_line\<close> is the body of the second \<^verbatim>\<open>if\<close> in the loop of
  \<^verbatim>\<open>ProcessConfigData\<close>, for the line \<open>seg\<close> that starts at
  \<^verbatim>\<open>&pConfigData[lineidx]\<close>: expansion into the working buffer, processing, error
  accounting and the increment of the line number.
\<close>

definition ProcessConfigData_line ::
  "'s env \<Rightarrow> 's file_call \<Rightarrow> 's LoadState \<Rightarrow> int \<Rightarrow> string \<Rightarrow> (int \<times> 's LoadState) option" where
  "ProcessConfigData_line env file st result seg =
     (case TEMPLATE_StrToFile env (hVarServer st) seg of
        (rc, workbuf) \<Rightarrow>
          if rc = EOK then
            (case ProcessConfigLine env file st workbuf of
               None \<Rightarrow> None
             | Some (rc', st') \<Rightarrow>
                 if rc' \<noteq> EOK then
                   (let st'' = LogError st' ''Config error''
                    in Some (rc', st''\<lparr>lineno := lineno st'' + 1\<rparr>))
                 else Some (result, st'\<lparr>lineno := lineno st' + 1\<rparr>))
          else
            (let st' = LogError st ''Variable Expansion error''
             in Some (rc, st'\<lparr>lineno := lineno st' + 1\<rparr>)))"

text \<open>
  The \<^verbatim>\<open>while( !done )\<close> loop, with its variables \<^verbatim>\<open>i\<close> and \<^verbatim>\<open>lineidx\<close>.
  The buffer is the list of the bytes read; the byte at an index beyond the list is the
  NUL that \<^verbatim>\<open>calloc\<close> left there. At a newline or a NUL the byte is overwritten by
  NUL, so that the C string at \<^verbatim>\<open>lineidx\<close> ends there; after a NUL the loop is
  done. The recursion ends because \<^verbatim>\<open>i\<close> moves towards the end of the buffer.
\<close>

function ProcessConfigData_while ::
  "'s env \<Rightarrow> 's file_call \<Rightarrow> 's LoadState \<Rightarrow> int \<Rightarrow> string \<Rightarrow> nat \<Rightarrow> nat
     \<Rightarrow> (int \<times> 's LoadState) option" where
  "ProcessConfigData_while env file st result pConfigData i lineidx =
     (let c = (if i < length pConfigData then pConfigData ! i else NUL)
      in if c = NL \<or> c = NUL then
           (let buf = (if i < length pConfigData then pConfigData[i := NUL] else pConfigData);
                line = takeWhile (\<lambda>b. b \<noteq> NUL) (drop lineidx buf)
            in case ProcessConfigData_line env file st result line of
                 None \<Rightarrow> None
               | Some (result', st') \<Rightarrow>
                   if c = NUL then Some (result', st')
                   else ProcessConfigData_while env file st' result' buf (i + 1) (i + 1))
         else ProcessConfigData_while env file st result pConfigData (i + 1) lineidx)"
  by pat_completeness auto
termination
  by (relation "measure (\<lambda>(env, f, st, result, pConfigData, i, lineidx). length pConfigData - i)")
     (auto split: if_splits)

declare ProcessConfigData_while.simps [simp del]

definition ProcessConfigData ::
  "'s env \<Rightarrow> 's file_call \<Rightarrow> 's LoadState \<Rightarrow> string \<Rightarrow> (int \<times> 's LoadState) option" where
  "ProcessConfigData env file st pConfigData =
     ProcessConfigData_while env file st EOK pConfigData 0 0"

text \<open>
  \<open>ProcessConfigFile env n\<close> is \<^verbatim>\<open>ProcessConfigFile\<close> with at most \<open>n\<close> nested
  calls on the C stack, this one included; with \<open>n = 0\<close> the bound is exceeded.
\<close>

primrec ProcessConfigFile :: "'s env \<Rightarrow> nat \<Rightarrow> 's file_call" where
  "ProcessConfigFile env 0 st filename =
     (case filename of None \<Rightarrow> Some (EINVAL, st) | Some name \<Rightarrow> None)"
| "ProcessConfigFile env (Suc n) st filename =
     (case filename of
        None \<Rightarrow> Some (EINVAL, st)
      | Some name \<Rightarrow>
          (let st1 = emit (Enter name) st;
               saveFileName = pFileName st1;
               saveLineNumber = lineno st1;
               st2 = st1\<lparr>lineno := 1, pFileName := Some name\<rparr>
           in (case (case GetConfigData env name of
                       Some pConfigData \<Rightarrow>
                         ProcessConfigData env (ProcessConfigFile env n) st2 pConfigData
                     | None \<Rightarrow>
                         if required st2 = False then Some (EOK, st2)
                         else Some (EINVAL, st2)) of
                 None \<Rightarrow> None
               | Some (result, st3) \<Rightarrow>
                   (let st4 = st3\<lparr>pFileName := saveFileName, lineno := saveLineNumber\<rparr>
                    in if result \<noteq> EOK then Some (result, emit (Failed name) st4)
                       else Some (result, st4)))))"

subsection \<open>Lines of a buffer, as the specification speaks of them\<close>

text \<open>
  The specification speaks of the lines of a buffer: the segments between terminators.
  \<open>split_lines\<close> cuts a text at every newline (\<open>k\<close> newlines give \<open>k + 1\<close> lines, the
  last one the text behind the final newline); \<open>segments\<close> are the lines of the buffer up
  to its first NUL. \<open>ProcessLines\<close> runs the loop body over a list of lines, and
  \<open>line_results\<close> collects the return code of every line on its own (\<open>EOK\<close> for a line
  that succeeded). \<open>last_error\<close> is the last code in a list that is not \<open>EOK\<close>.
\<close>

fun split_lines :: "string \<Rightarrow> string list" where
  "split_lines [] = [[]]"
| "split_lines (c # cs) =
     (if c = NL then [] # split_lines cs
      else (case split_lines cs of [] \<Rightarrow> [[c]] | l # ls \<Rightarrow> (c # l) # ls))"

definition segments :: "string \<Rightarrow> string list" where
  "segments buf = split_lines (takeWhile (\<lambda>c. c \<noteq> NUL) buf)"

text \<open>
  The same loop by recursion over the rest of the buffer, with the bytes of the current
  line collected in \<open>seg\<close>; \<open>ProcessConfigData_while_loop\<close> below shows that the two
  agree.
\<close>

fun ProcessConfigData_loop ::
  "'s env \<Rightarrow> 's file_call \<Rightarrow> 's LoadState \<Rightarrow> int \<Rightarrow> string \<Rightarrow> string
     \<Rightarrow> (int \<times> 's LoadState) option" where
  "ProcessConfigData_loop env file st result seg [] =
     ProcessConfigData_line env file st result seg"
| "ProcessConfigData_loop env file st result seg (c # cs) =
     (if c = NUL then ProcessConfigData_line env file st result seg
      else if c = NL then
        (case ProcessConfigData_line env file st result seg of
           None \<Rightarrow> None
         | Some (result', st') \<Rightarrow> ProcessConfigData_loop env file st' result' [] cs)
      else ProcessConfigData_loop env file st result (seg @ [c]) cs)"

fun ProcessLines ::
  "'s env \<Rightarrow> 's file_call \<Rightarrow> 's LoadState \<Rightarrow> int \<Rightarrow> string list \<Rightarrow> (int \<times> 's LoadState) option" where
  "ProcessLines env file st result [] = Some (result, st)"
| "ProcessLines env file st result (l # ls) =
     (case ProcessConfigData_line env file st result l of
        None \<Rightarrow> None
      | Some (result', st') \<Rightarrow> ProcessLines env file st' result' ls)"

fun line_results ::
  "'s env \<Rightarrow> 's file_call \<Rightarrow> 's LoadState \<Rightarrow> string list \<Rightarrow> (int list \<times> 's LoadState) option" where
  "line_results env file st [] = Some ([], st)"
| "line_results env file st (l # ls) =
     (case ProcessConfigData_line env file st EOK l of
        None \<Rightarrow> None
      | Some (rc, st') \<Rightarrow>
          (case line_results env file st' ls of
             None \<Rightarrow> None
           | Some (rcs, st'') \<Rightarrow> Some (rc # rcs, st'')))"

definition last_error :: "int list \<Rightarrow> int" where
  "last_error rcs = (case rev (filter (\<lambda>rc. rc \<noteq> EOK) rcs) of [] \<Rightarrow> EOK | rc # _ \<Rightarrow> rc)"

definition set_calls :: "event list \<Rightarrow> (string \<times> string) list" where
  "set_calls tr = concat (map (\<lambda>e. case e of SetVar name val \<Rightarrow> [(name, val)] | _ \<Rightarrow> []) tr)"

subsection \<open>An example environment\<close>

text \<open>
  A small file system, a template engine that copies a line unless it holds a \<open>$\<close>
  (then it fails with \<open>ENOENT\<close>), and a variable server that stores every assignment
  but those to \<open>/nope\<close>. The examples below are evaluated in it.
\<close>

fun join_lines :: "string list \<Rightarrow> string" where
  "join_lines [] = []"
| "join_lines [l] = l"
| "join_lines (l # ls) = l @ NL # join_lines ls"

definition demo_files :: "(string \<times> string) list" where
  "demo_files =
     [(''main.cfg'', join_lines [''@config main'', ''@include sub.cfg'', ''@nope'', ''/sys/x 1'', []]),
      (''sub.cfg'', join_lines [''@config sub'', ''/sub/a=${b}'', ''/sub/c 3'']),
      (''good.cfg'', join_lines [''@config good'', ''/net/dhcp 1'']),
      (''notes.txt'', ''plain text, no tag''),
      (''tiny'', ''@con''),
      (''conf.d/only.cfg'', join_lines [''@config only'', ''/only 1'']),
      (''.'', []), (''..'', [])]"

definition demo_dirs :: "(string \<times> string list) list" where
  "demo_dirs =
     [(''.'', [''.'', ''..'', ''good.cfg'', ''notes.txt'']),
      (''conf.d'', [''only.cfg'']),
      (''other.d'', [''only.cfg'']),
      (''pair.d'', [''good.cfg'', ''notes.txt'']),
      (''plain.d'', [''notes.txt'', ''tiny'']),
      (''fail.d'', [''main.cfg'']),
      (''many.d'', [''notes.txt'', ''tiny'', ''.'', ''..'', ''missing.cfg''])]"

definition demo_env :: "bool \<Rightarrow> (string \<times> string) list env" where
  "demo_env null_save =
     \<lparr> lstat_size = (\<lambda>f. if f = ''.'' \<or> f = ''..'' then Some 4096
                          else map_option length (map_of demo_files f)),
       fopen_read = map_of demo_files,
       opendir_entries = map_of demo_dirs,
       TEMPLATE_StrToFile = (\<lambda>h s. if CHR ''$'' \<in> set s then (ENOENT, []) else (EOK, s)),
       VAR_SetNameValue = (\<lambda>h name val. if name = ''/nope'' then (ENOENT, h)
                                          else (EOK, h @ [(name, val)])),
       strtok_null_save = null_save \<rparr>"

definition demo_state :: "(string \<times> string) list LoadState" where
  "demo_state =
     \<lparr> hVarServer = [], verbose = False, pFileName = Some ''root.cfg'', lineno = 7,
       required = True, trace = [] \<rparr>"

subsection \<open>Auxiliary notions of the proofs\<close>

text \<open>
  \<open>keeps_position file\<close>: a call of \<open>file\<close> that returns leaves the file name and
  the line number of the state as they were. \<open>pick_error r rc\<close> is the loop's update of
  \<^verbatim>\<open>result\<close> by the return code \<open>rc\<close> of one line.

  \<open>skip_entries st es\<close> is the state after the directory loop has gone through the
  entries \<open>es\<close> when none of them is a configuration file: each call has set the
  required flag to false and printed the name it was handed, in the order of the listing.
  \<open>record_names rc\<close> stands in for \<^verbatim>\<open>ProcessConfigFile\<close> where the question
  is which names the directory loop hands over: it prints the name it is given, as
  \<^verbatim>\<open>ProcessConfigFile\<close> does on entry, and returns the code \<open>rc\<close>.
\<close>

definition keeps_position :: "'s file_call \<Rightarrow> bool" where
  "keeps_position file =
     (\<forall>st f rc st'. file st f = Some (rc, st') \<longrightarrow>
        pFileName st' = pFileName st \<and> lineno st' = lineno st)"

definition pick_error :: "int \<Rightarrow> int \<Rightarrow> int" where
  "pick_error r rc = (if rc = EOK then r else rc)"

definition skip_entries :: "'s LoadState \<Rightarrow> string list \<Rightarrow> 's LoadState" where
  "skip_entries st es =
     (if es = [] then st else st\<lparr>required := False, trace := trace st @ map Enter es\<rparr>)"

definition record_names :: "int \<Rightarrow> 's file_call" where
  "record_names rc st pFileName' =
     Some (rc, emit (Enter (case pFileName' of None \<Rightarrow> [] | Some name \<Rightarrow> name)) st)"

text \<open>
  Buffers and the states the examples pass through or end in. \<open>roundtrip_buffer\<close> is the
  specification's example input; \<open>demo_buffer\<close> has a line that fails to expand and
  an unknown directive between two good assignments; \<open>nested_buffer\<close> starts with an
  include that fails, goes on with a line that fails to expand, a comment and an
  assignment, and ends with a newline. \<open>strict_env\<close> is \<open>demo_env\<close> with a template
  engine that rejects the empty string.
\<close>

definition demo_buffer :: string where
  "demo_buffer = join_lines [''/sys/x 1'', ''a ${v}'', ''@bogus'', ''/sys/y=2'']"

definition roundtrip_buffer :: string where
  "roundtrip_buffer = ''/sys/x 1'' @ [NL] @ ''/sys/y=2'' @ [NL]"

definition demo_after_lines :: "(string \<times> string) list LoadState" where
  "demo_after_lines =
     \<lparr> hVarServer = [(''/sys/x'', ''1''), (''/sys/y'', ''2'')], verbose = False,
       pFileName = Some ''root.cfg'', lineno = 11, required = True,
       trace = [SetVar ''/sys/x'' ''1'',
                LogErr ''Variable Expansion error'' (Some ''root.cfg'') 8,
                LogErr ''unknown directive'' (Some ''root.cfg'') 9,
                LogErr ''Config error'' (Some ''root.cfg'') 9,
                SetVar ''/sys/y'' ''2''] \<rparr>"

definition demo_after_main :: "(string \<times> string) list LoadState" where
  "demo_after_main =
     \<lparr> hVarServer = [(''/sub/c'', ''3''), (''/sys/x'', ''1'')], verbose = False,
       pFileName = Some ''root.cfg'', lineno = 7, required = False,
       trace = [Enter ''main.cfg'', Enter ''sub.cfg'',
                LogErr ''Variable Expansion error'' (Some ''sub.cfg'') 2,
                SetVar ''/sub/c'' ''3'', Failed ''sub.cfg'',
                LogErr ''Config error'' (Some ''main.cfg'') 2,
                LogErr ''unknown directive'' (Some ''main.cfg'') 3,
                LogErr ''Config error'' (Some ''main.cfg'') 3,
                SetVar ''/sys/x'' ''1'', Failed ''main.cfg''] \<rparr>"

definition demo_in_sub :: "(string \<times> string) list LoadState" where
  "demo_in_sub =
     \<lparr> hVarServer = [(''/sub/c'', ''3'')], verbose = False, pFileName = Some ''sub.cfg'',
       lineno = 4, required = True,
       trace = [Enter ''sub.cfg'',
                LogErr ''Variable Expansion error'' (Some ''sub.cfg'') 2,
                SetVar ''/sub/c'' ''3''] \<rparr>"

definition demo_after_dir :: "(string \<times> string) list LoadState" where
  "demo_after_dir =
     \<lparr> hVarServer = [(''/net/dhcp'', ''1'')], verbose = False,
       pFileName = Some ''root.cfg'', lineno = 7, required = False,
       trace = [Enter ''.'', Enter ''..'', Enter ''good.cfg'',
                SetVar ''/net/dhcp'' ''1'', Enter ''notes.txt''] \<rparr>"

definition demo_after_good :: "(string \<times> string) list LoadState" where
  "demo_after_good =
     \<lparr> hVarServer = [(''/net/dhcp'', ''1'')], verbose = False,
       pFileName = Some ''root.cfg'', lineno = 7, required = False,
       trace = [Enter ''good.cfg'', SetVar ''/net/dhcp'' ''1''] \<rparr>"

definition nested_buffer :: string where
  "nested_buffer = join_lines [''@include main.cfg'', ''a ${v}'', ''# note'', ''/sys/y=2'', []]"

definition demo_after_nested :: "(string \<times> string) list LoadState" where
  "demo_after_nested =
     \<lparr> hVarServer = [(''/sub/c'', ''3''), (''/sys/x'', ''1''), (''/sys/y'', ''2'')],
       verbose = False, pFileName = Some ''root.cfg'', lineno = 12, required = False,
       trace = [Enter ''main.cfg'', Enter ''sub.cfg'',
                LogErr ''Variable Expansion error'' (Some ''sub.cfg'') 2,
                SetVar ''/sub/c'' ''3'', Failed ''sub.cfg'',
                LogErr ''Config error'' (Some ''main.cfg'') 2,
                LogErr ''unknown directive'' (Some ''main.cfg'') 3,
                LogErr ''Config error'' (Some ''main.cfg'') 3,
                SetVar ''/sys/x'' ''1'', Failed ''main.cfg'',
                LogErr ''Config error'' (Some ''root.cfg'') 7,
                LogErr ''Variable Expansion error'' (Some ''root.cfg'') 8,
                SetVar ''/sys/y'' ''2''] \<rparr>"

definition demo_after_entries :: "(string \<times> string) list LoadState" where
  "demo_after_entries =
     \<lparr> hVarServer = [(''/net/dhcp'', ''1'')], verbose = False,
       pFileName = Some ''root.cfg'', lineno = 7, required = False,
       trace = [Enter ''.'', Enter ''..'', Enter ''good.cfg'', SetVar ''/net/dhcp'' ''1''] \<rparr>"

definition demo_after_many :: "(string \<times> string) list LoadState" where
  "demo_after_many =
     \<lparr> hVarServer = [], verbose = False, pFileName = Some ''root.cfg'', lineno = 7,
       required = False,
       trace = [Enter ''notes.txt'', Enter ''tiny'', Enter ''.'', Enter ''..'',
                Enter ''missing.cfg''] \<rparr>"


section \<open>Properties\<close>

subsection \<open>Basic facts\<close>

lemma EOK_neq_EINVAL: "EINVAL \<noteq> EOK"
  by (simp add: EOK_def EINVAL_def)

lemma NL_neq_NUL: "NL \<noteq> NUL"
  by (simp add: NL_def NUL_def)

lemma emit_simps [simp]:
  "pFileName (emit e st) = pFileName st" "lineno (emit e st) = lineno st"
  "required (emit e st) = required st" "hVarServer (emit e st) = hVarServer st"
  "verbose (emit e st) = verbose st" "trace (emit e st) = trace st @ [e]"
  by (simp_all add: emit_def)

lemma LogError_simps [simp]:
  "pFileName (LogError st m) = pFileName st" "lineno (LogError st m) = lineno st"
  "required (LogError st m) = required st" "hVarServer (LogError st m) = hVarServer st"
  "verbose (LogError st m) = verbose st"
  "trace (LogError st m) = trace st @ [LogErr m (pFileName st) (lineno st)]"
  by (simp_all add: LogError_def)

lemma set_calls_simps [simp]:
  "set_calls [] = []"
  "set_calls (tr @ tr') = set_calls tr @ set_calls tr'"
  "set_calls (SetVar name val # tr) = (name, val) # set_calls tr"
  "set_calls (LogErr m f k # tr) = set_calls tr"
  "set_calls (Enter f' # tr) = set_calls tr"
  "set_calls (Failed f' # tr) = set_calls tr"
  by (simp_all add: set_calls_def)

subsection \<open>Splitting a line at a delimiter\<close>

text \<open>
  A string that starts with a non-empty token free of the delimiter \<open>c\<close>, followed by
  \<open>c\<close>: the token is cut off there and the saved pointer is everything behind that
  one character, whatever the C library does at the end of the string.
\<close>

lemma strtok_r_split:
  assumes "c \<notin> set tok" and "tok \<noteq> []"
  shows "strtok_r b (tok @ c # rest) [c] = (Some tok, Some rest)"
proof -
  obtain x xs where tok: "tok = x # xs" using assms(2) by (cases tok) auto
  with assms(1) have x: "x \<noteq> c" by auto
  have d: "dropWhile (\<lambda>a. a \<in> set [c]) (tok @ c # rest) = tok @ c # rest"
    using x by (simp add: tok)
  have t: "takeWhile (\<lambda>a. a \<notin> set [c]) (tok @ c # rest) = tok"
    using assms(1) by (induction tok) auto
  have r: "dropWhile (\<lambda>a. a \<notin> set [c]) (tok @ c # rest) = c # rest"
    using assms(1) by (induction tok) auto
  show ?thesis
    unfolding strtok_r_def Let_def d t r using tok by simp
qed

lemma str_after_strtok_split:
  assumes "c \<notin> set tok" and "tok \<noteq> []"
  shows "str_after_strtok (tok @ c # rest) [c] = tok"
proof -
  obtain x xs where tok: "tok = x # xs" using assms(2) by (cases tok) auto
  with assms(1) have x: "x \<noteq> c" by auto
  have d: "dropWhile (\<lambda>a. a \<in> set [c]) (tok @ c # rest) = tok @ c # rest"
    using x by (simp add: tok)
  have t0: "takeWhile (\<lambda>a. a \<in> set [c]) (tok @ c # rest) = []"
    using x by (simp add: tok)
  have t: "takeWhile (\<lambda>a. a \<notin> set [c]) (tok @ c # rest) = tok"
    using assms(1) by (induction tok) auto
  show ?thesis
    unfolding str_after_strtok_def d t t0 by simp
qed

lemma strtok_directive:
  "strtok_r b (''@include '' @ f) '' '' = (Some ''@include'', Some f)"
  "str_after_strtok (''@include '' @ f) '' '' = ''@include''"
  "strtok_r b (''@require '' @ f) '' '' = (Some ''@require'', Some f)"
  "str_after_strtok (''@require '' @ f) '' '' = ''@require''"
  "strtok_r b (''@includedir '' @ f) '' '' = (Some ''@includedir'', Some f)"
  "str_after_strtok (''@includedir '' @ f) '' '' = ''@includedir''"
  using strtok_r_split [of "CHR '' ''" "''@include''" b f]
        str_after_strtok_split [of "CHR '' ''" "''@include''" f]
        strtok_r_split [of "CHR '' ''" "''@require''" b f]
        str_after_strtok_split [of "CHR '' ''" "''@require''" f]
        strtok_r_split [of "CHR '' ''" "''@includedir''" b f]
        str_after_strtok_split [of "CHR '' ''" "''@includedir''" f]
  by simp_all

lemma ProcessDirective_args:
  "ProcessDirective env file st (''@include '' @ f) = ProcessIncludeDirective file st (Some f)"
  "ProcessDirective env file st (''@require '' @ f) = ProcessRequireDirective file st (Some f)"
  "ProcessDirective env file st (''@includedir '' @ f)
     = ProcessIncludeDirDirective env file st (Some f)"
  by (simp_all only: ProcessDirective_def strtok_directive) simp_all

lemma ProcessConfigLine_at:
  "ProcessConfigLine env file st (CHR ''@'' # cs) = ProcessDirective env file st (CHR ''@'' # cs)"
  by (simp add: ProcessConfigLine_def)

lemma ProcessConfigLine_args:
  "ProcessConfigLine env file st (''@include '' @ f) = ProcessIncludeDirective file st (Some f)"
  "ProcessConfigLine env file st (''@require '' @ f) = ProcessRequireDirective file st (Some f)"
  "ProcessConfigLine env file st (''@includedir '' @ f)
     = ProcessIncludeDirDirective env file st (Some f)"
  by (simp_all add: ProcessConfigLine_at ProcessDirective_args [simplified])

lemma ProcessVariableAssignment_set:
  assumes "strtok_r (strtok_null_save env) line (if CHR ''='' \<in> set line then ''='' else '' '')
             = (Some name, Some val)"
  shows "fst (ProcessVariableAssignment env st line)
           = fst (VAR_SetNameValue env (hVarServer st) name val) \<and>
         hVarServer (snd (ProcessVariableAssignment env st line))
           = snd (VAR_SetNameValue env (hVarServer st) name val) \<and>
         set_calls (trace (snd (ProcessVariableAssignment env st line)))
           = set_calls (trace st) @ [(name, val)]"
  using assms
  by (cases "VAR_SetNameValue env (hVarServer st) name val")
     (simp add: ProcessVariableAssignment_def Let_def)

subsection \<open>File name and line number across calls\<close>

text \<open>
  Every function between \<open>ProcessConfigFile\<close> and its recursive call passes on what
  the recursive call guarantees; \<open>ProcessConfigFile\<close> itself restores both fields
  whatever happened in between.
\<close>

lemma ProcessConfigFile_no_data:
  assumes "GetConfigData env f = None"
  shows "ProcessConfigFile env (Suc n) st (Some f) =
           (if required st then Some (EINVAL, emit (Failed f) (emit (Enter f) st))
            else Some (EOK, emit (Enter f) st))"
  using assms by (simp add: Let_def EOK_neq_EINVAL)

lemma keeps_positionD:
  "keeps_position file \<Longrightarrow> file st f = Some (rc, st') \<Longrightarrow>
     pFileName st' = pFileName st \<and> lineno st' = lineno st"
  unfolding keeps_position_def by blast


lemma ProcessIncludeDirective_frame:
  assumes "keeps_position file" and "ProcessIncludeDirective file st a = Some (rc, st')"
  shows "pFileName st' = pFileName st \<and> lineno st' = lineno st"
proof (cases a)
  case None
  with assms(2) show ?thesis by (simp add: ProcessIncludeDirective_def)
next
  case (Some name)
  with assms(2) have "file (st\<lparr>required := False\<rparr>) (Some name) = Some (rc, st')"
    by (simp add: ProcessIncludeDirective_def)
  from keeps_positionD [OF assms(1) this] show ?thesis by simp
qed

lemma ProcessRequireDirective_frame:
  assumes "keeps_position file" and "ProcessRequireDirective file st a = Some (rc, st')"
  shows "pFileName st' = pFileName st \<and> lineno st' = lineno st"
proof (cases a)
  case None
  with assms(2) show ?thesis by (simp add: ProcessRequireDirective_def)
next
  case (Some name)
  with assms(2) have "file (st\<lparr>required := True\<rparr>) (Some name) = Some (rc, st')"
    by (simp add: ProcessRequireDirective_def)
  from keeps_positionD [OF assms(1) this] show ?thesis by simp
qed

lemma readdir_loop_frame:
  assumes "keeps_position file"
  shows "readdir_loop file st es = Some st' \<Longrightarrow>
           pFileName st' = pFileName st \<and> lineno st' = lineno st"
proof (induction es arbitrary: st)
  case Nil
  then show ?case by simp
next
  case (Cons e es)
  from Cons.prems obtain rc st1 where
    1: "file (st\<lparr>required := False\<rparr>) (Some e) = Some (rc, st1)" and
    2: "readdir_loop file st1 es = Some st'"
    by (auto split: option.splits)
  from keeps_positionD [OF assms 1] Cons.IH [OF 2] show ?case by simp
qed

lemma ProcessIncludeDirDirective_frame:
  assumes "keeps_position file" and "ProcessIncludeDirDirective env file st a = Some (rc, st')"
  shows "pFileName st' = pFileName st \<and> lineno st' = lineno st"
  using assms(2) readdir_loop_frame [OF assms(1)]
  by (auto simp: ProcessIncludeDirDirective_def split: option.splits)

lemma ProcessDirective_frame:
  assumes "keeps_position file" and "ProcessDirective env file st l = Some (rc, st')"
  shows "pFileName st' = pFileName st \<and> lineno st' = lineno st"
proof -
  obtain tok arg where s: "strtok_r (strtok_null_save env) l '' '' = (tok, arg)"
    by (cases "strtok_r (strtok_null_save env) l '' ''") auto
  let ?d = "str_after_strtok l '' ''"
  consider (config) "?d = ''@config''" "ProcessConfigDirective st arg = (rc, st')"
    | (incl) "ProcessIncludeDirective file st arg = Some (rc, st')"
    | (req) "ProcessRequireDirective file st arg = Some (rc, st')"
    | (dir) "ProcessIncludeDirDirective env file st arg = Some (rc, st')"
    | (unknown) "st' = LogError st ''unknown directive''"
    using assms(2) unfolding ProcessDirective_def s by (simp add: Let_def split: if_splits)
  then show ?thesis
  proof cases
    case config
    then show ?thesis by (auto simp: ProcessConfigDirective_def split: option.splits)
  next
    case incl
    from ProcessIncludeDirective_frame [OF assms(1) this] show ?thesis .
  next
    case req
    from ProcessRequireDirective_frame [OF assms(1) this] show ?thesis .
  next
    case dir
    from ProcessIncludeDirDirective_frame [OF assms(1) this] show ?thesis .
  next
    case unknown
    then show ?thesis by simp
  qed
qed




lemma ProcessConfigFile_keeps: "keeps_position (ProcessConfigFile env n)"
proof (induction n)
  case 0
  show ?case by (auto simp: keeps_position_def split: option.splits)
next
  case (Suc n)
  show ?case
    unfolding keeps_position_def
  proof (intro allI impI)
    fix st f rc st'
    assume a: "ProcessConfigFile env (Suc n) st f = Some (rc, st')"
    show "pFileName st' = pFileName st \<and> lineno st' = lineno st"
    proof (cases f)
      case None
      with a show ?thesis by simp
    next
      case (Some name)
      with a show ?thesis
        by (auto simp: Let_def split: option.splits if_splits)
    qed
  qed
qed


lemma readdir_loop_total:
  assumes "\<And>st e. e \<in> set es \<Longrightarrow> file st (Some e) \<noteq> None"
  shows "readdir_loop file st es \<noteq> None"
  using assms
proof (induction es arbitrary: st)
  case Nil
  show ?case by simp
next
  case (Cons e es)
  from Cons.prems [of e "st\<lparr>required := False\<rparr>"]
  obtain rc st1 where 1: "file (st\<lparr>required := False\<rparr>) (Some e) = Some (rc, st1)" by auto
  have "readdir_loop file st1 es \<noteq> None"
    by (rule Cons.IH) (simp add: Cons.prems)
  with 1 show ?case by simp
qed

subsection \<open>The loop of ProcessConfigData and the lines of the buffer\<close>

text \<open>
  The C string the loop finds at \<^verbatim>\<open>lineidx\<close> after it has overwritten the
  terminator at \<^verbatim>\<open>i\<close> is the part of the buffer between the two indices
  (\<open>cstring_at\<close>). So the loop over the indices is the loop over the rest of the
  buffer (\<open>ProcessConfigData_while_loop\<close>), which processes exactly the segments of
  the buffer, in order (\<open>ProcessConfigData_lines\<close>); its result is the last error among
  the return codes of the lines (\<open>ProcessLines_line_results\<close>).
\<close>

lemma takeWhile_not_NUL: "NUL \<notin> set a \<Longrightarrow> takeWhile (\<lambda>c. c \<noteq> NUL) a = a"
  by (induction a) auto

lemma takeWhile_stop_NUL:
  "NUL \<notin> set a \<Longrightarrow> takeWhile (\<lambda>c. c \<noteq> NUL) (a @ NUL # b) = a"
  by (induction a) auto

lemma cstring_at:
  assumes "lineidx \<le> i" "i < length buf"
    and "NUL \<notin> set (take (i - lineidx) (drop lineidx buf))"
  shows "takeWhile (\<lambda>b. b \<noteq> NUL) (drop lineidx (buf[i := NUL]))
           = take (i - lineidx) (drop lineidx buf)"
proof -
  let ?ys = "drop lineidx buf"
  let ?j = "i - lineidx"
  have j: "?j < length ?ys" using assms(1,2) by simp
  have "drop lineidx (buf[i := NUL]) = ?ys[?j := NUL]"
    using assms(1) by (simp add: drop_update_swap)
  also have "\<dots> = take ?j ?ys @ NUL # drop (Suc ?j) ?ys"
    using j by (rule upd_conv_take_nth_drop)
  finally have e: "drop lineidx (buf[i := NUL]) = take ?j ?ys @ NUL # drop (Suc ?j) ?ys" .
  show ?thesis unfolding e using assms(3) by (rule takeWhile_stop_NUL)
qed

lemma ProcessConfigData_while_loop:
  assumes "lineidx \<le> i" "i \<le> length buf"
    and "NUL \<notin> set (take (i - lineidx) (drop lineidx buf))"
  shows "ProcessConfigData_while env file st r buf i lineidx =
           ProcessConfigData_loop env file st r (take (i - lineidx) (drop lineidx buf)) (drop i buf)"
  using assms
proof (induction env "file" st r buf i lineidx rule: ProcessConfigData_while.induct)
  case (1 env f st result buf i lineidx)
  let ?seg = "take (i - lineidx) (drop lineidx buf)"
  show ?case
  proof (cases "i < length buf")
    case False
    with "1.prems" have i: "i = length buf" by simp
    then have seg: "?seg = drop lineidx buf" by simp
    with "1.prems"(3) have tw: "takeWhile (\<lambda>b. b \<noteq> NUL) (drop lineidx buf) = drop lineidx buf"
      by (simp add: takeWhile_not_NUL)
    have "ProcessConfigData_while env f st result buf i lineidx
            = ProcessConfigData_line env f st result (drop lineidx buf)"
      using i by (subst ProcessConfigData_while.simps) (auto simp: tw split: option.splits)
    then show ?thesis using i by simp
  next
    case True
    let ?c = "buf ! i"
    have dr: "drop i buf = ?c # drop (Suc i) buf"
      using True by (simp add: Cons_nth_drop_Suc)
    have line: "takeWhile (\<lambda>b. b \<noteq> NUL) (drop lineidx (buf[i := NUL])) = ?seg"
      using "1.prems"(1) True "1.prems"(3) by (rule cstring_at)
    show ?thesis
    proof (cases "?c = NUL")
      case True
      with \<open>i < length buf\<close> line show ?thesis
        by (subst ProcessConfigData_while.simps) (auto simp: dr split: option.splits)
    next
      case notnul: False
      show ?thesis
      proof (cases "?c = NL")
        case True
        have ih: "ProcessConfigData_while env f st' r' (buf[i := NUL]) (Suc i) (Suc i)
                    = ProcessConfigData_loop env f st' r' [] (drop (Suc i) buf)"
          if "ProcessConfigData_line env f st result ?seg = Some (r', st')" for r' st'
        proof -
          have "ProcessConfigData_while env f st' r' (buf[i := NUL]) (i + 1) (i + 1)
                  = ProcessConfigData_loop env f st' r'
                      (take (i + 1 - (i + 1)) (drop (i + 1) (buf[i := NUL])))
                      (drop (i + 1) (buf[i := NUL]))"
            by (rule "1.IH"(1) [where x = "buf ! i" and xa = "buf[i := NUL]" and xb = ?seg
                  and ?x2.0 = "(r', st')"])
               (use True notnul \<open>i < length buf\<close> that line in simp_all)
          then show ?thesis by simp
        qed
        show ?thesis
          using True notnul \<open>i < length buf\<close> line
          by (subst ProcessConfigData_while.simps)
             (auto simp: dr ih split: option.splits)
      next
        case False
        have step: "take (Suc i - lineidx) (drop lineidx buf) = ?seg @ [?c]"
        proof -
          have "Suc i - lineidx = Suc (i - lineidx)" using "1.prems"(1) by simp
          moreover have "i - lineidx < length (drop lineidx buf)"
            using "1.prems"(1) True by simp
          moreover have "drop lineidx buf ! (i - lineidx) = ?c"
            using "1.prems"(1) True by simp
          ultimately show ?thesis by (simp add: take_Suc_conv_app_nth)
        qed
        have "ProcessConfigData_while env f st result buf (i + 1) lineidx
                = ProcessConfigData_loop env f st result
                    (take (i + 1 - lineidx) (drop lineidx buf)) (drop (i + 1) buf)"
          by (rule "1.IH"(2) [where x = "buf ! i"])
             (use False notnul True "1.prems" step in simp_all)
        then show ?thesis
          using False notnul True
          by (subst ProcessConfigData_while.simps) (simp add: dr step)
      qed
    qed
  qed
qed

lemma ProcessConfigData_loop_eq:
  "ProcessConfigData env file st buf = ProcessConfigData_loop env file st EOK [] buf"
  using ProcessConfigData_while_loop [of 0 0 buf env "file" st EOK]
  by (simp add: ProcessConfigData_def)

lemma split_lines_not_Nil [simp]: "split_lines cs \<noteq> []"
  by (induction cs) (auto split: list.splits)

lemma segments_not_Nil [simp]: "segments buf \<noteq> []"
  by (simp add: segments_def)

lemma segments_simps:
  "segments [] = [[]]"
  "segments (NUL # cs) = [[]]"
  "c \<noteq> NUL \<Longrightarrow> c = NL \<Longrightarrow> segments (c # cs) = [] # segments cs"
  "c \<noteq> NUL \<Longrightarrow> c \<noteq> NL \<Longrightarrow>
     segments (c # cs) = (c # hd (segments cs)) # tl (segments cs)"
  by (auto simp: segments_def split: list.splits)

lemma ProcessConfigData_loop_lines:
  "ProcessConfigData_loop env file st r seg buf =
     ProcessLines env file st r ((seg @ hd (segments buf)) # tl (segments buf))"
proof (induction buf arbitrary: st r seg)
  case Nil
  show ?case by (simp add: segments_simps split: option.splits prod.splits)
next
  case (Cons c cs)
  show ?case
  proof (cases "c = NUL")
    case True
    then show ?thesis by (simp add: segments_simps split: option.splits prod.splits)
  next
    case notnul: False
    show ?thesis
    proof (cases "c = NL")
      case True
      have "segments cs = hd (segments cs) # tl (segments cs)" by simp
      with True notnul Cons.IH [of _ _ "[]"] show ?thesis
        by (simp add: segments_simps split: option.splits prod.splits)
    next
      case False
      with notnul Cons.IH [of st r "seg @ [c]"] show ?thesis
        by (simp add: segments_simps)
    qed
  qed
qed

lemma ProcessConfigData_lines:
  "ProcessConfigData env file st buf = ProcessLines env file st EOK (segments buf)"
  by (simp add: ProcessConfigData_loop_eq ProcessConfigData_loop_lines)

lemma split_lines_no_NL: "NL \<notin> set b \<Longrightarrow> split_lines b = [b]"
  by (induction b) auto

lemma split_lines_append_NL:
  "split_lines (a @ NL # b) = split_lines a @ split_lines b"
proof (induction a)
  case Nil
  show ?case by simp
next
  case (Cons c a)
  obtain l ls where "split_lines a = l # ls"
    by (cases "split_lines a") auto
  with Cons show ?case by simp
qed




lemma ProcessConfigData_line_blank:
  assumes "TEMPLATE_StrToFile env (hVarServer st) [] = (EOK, [])"
  shows "ProcessConfigData_line env file st r [] = Some (r, st\<lparr>lineno := lineno st + 1\<rparr>)"
  using assms by (simp add: ProcessConfigData_line_def ProcessConfigLine_def)


lemma ProcessConfigData_line_result:
  "ProcessConfigData_line env file st r l =
     map_option (\<lambda>(rc, st'). (pick_error r rc, st')) (ProcessConfigData_line env file st EOK l)"
  by (auto simp: ProcessConfigData_line_def Let_def pick_error_def
      split: prod.splits option.splits)

lemma last_error_Cons:
  "last_error (rc # rcs) = (if last_error rcs = EOK then rc else last_error rcs)"
proof (cases "filter (\<lambda>rc. rc \<noteq> EOK) rcs" rule: rev_cases)
  case Nil
  then show ?thesis by (simp add: last_error_def)
next
  case (snoc ys y)
  then have "y \<in> set (filter (\<lambda>rc. rc \<noteq> EOK) rcs)" by simp
  then have "y \<noteq> EOK" by simp
  with snoc show ?thesis by (simp add: last_error_def)
qed

lemma ProcessLines_line_results:
  "ProcessLines env file st r ls =
     map_option (\<lambda>(rcs, st'). (pick_error r (last_error rcs), st')) (line_results env file st ls)"
proof (induction ls arbitrary: st r)
  case Nil
  show ?case by (simp add: last_error_def pick_error_def)
next
  case (Cons l ls)
  show ?case
  proof (cases "ProcessConfigData_line env file st EOK l")
    case None
    then show ?thesis by (simp add: ProcessConfigData_line_result [of env "file" st r l])
  next
    case (Some p)
    obtain rc st1 where p: "p = (rc, st1)" by (cases p)
    have 1: "ProcessConfigData_line env file st r l = Some (pick_error r rc, st1)"
      using Some p by (simp add: ProcessConfigData_line_result [of env "file" st r l])
    show ?thesis
    proof (cases "line_results env file st1 ls")
      case None
      with Some p 1 Cons.IH [of st1 "pick_error r rc"] show ?thesis by simp
    next
      case inner: (Some q)
      obtain rcs st2 where q: "q = (rcs, st2)" by (cases q)
      from Some p 1 inner q Cons.IH [of st1 "pick_error r rc"] show ?thesis
        by (simp add: last_error_Cons pick_error_def)
    qed
  qed
qed

lemma line_results_length:
  "line_results env file st ls = Some (rcs, st') \<Longrightarrow> length rcs = length ls"
  by (induction ls arbitrary: st rcs) (auto split: option.splits)

subsection \<open>The loop over a directory listing\<close>

text \<open>
  What one line does in each of its three outcomes, and the directive
  \<^verbatim>\<open>@includedir\<close> as the loop over the listing: the loop composes over
  concatenated listings, and over entries that are not configuration files it does
  nothing but set the flag and print the names.
\<close>

lemma ProcessConfigData_line_expansion_error:
  assumes "TEMPLATE_StrToFile env (hVarServer st) seg = (rc, wb)" and "rc \<noteq> EOK"
  shows "ProcessConfigData_line env file st r seg
           = Some (rc, (LogError st ''Variable Expansion error'')\<lparr>lineno := lineno st + 1\<rparr>)"
  using assms by (simp add: ProcessConfigData_line_def Let_def)

lemma ProcessConfigData_line_config_error:
  assumes "TEMPLATE_StrToFile env (hVarServer st) seg = (EOK, wb)"
    and "ProcessConfigLine env file st wb = Some (rc, st1)" and "rc \<noteq> EOK"
  shows "ProcessConfigData_line env file st r seg
           = Some (rc, (LogError st1 ''Config error'')\<lparr>lineno := lineno st1 + 1\<rparr>)"
  using assms by (simp add: ProcessConfigData_line_def Let_def)

lemma ProcessConfigData_line_ok:
  assumes "TEMPLATE_StrToFile env (hVarServer st) seg = (EOK, wb)"
    and "ProcessConfigLine env file st wb = Some (EOK, st1)"
  shows "ProcessConfigData_line env file st r seg = Some (r, st1\<lparr>lineno := lineno st1 + 1\<rparr>)"
  using assms by (simp add: ProcessConfigData_line_def Let_def)

lemma ProcessConfigLine_assignment:
  assumes "c \<noteq> CHR ''#''" and "c \<noteq> CHR ''@''"
  shows "ProcessConfigLine env file st (c # cs) = Some (ProcessVariableAssignment env st (c # cs))"
  using assms by (simp add: ProcessConfigLine_def)

lemma ProcessIncludeDirDirective_loop:
  "ProcessIncludeDirDirective env file st (Some d) =
     (case opendir_entries env d of
        None \<Rightarrow> Some (EOK, st)
      | Some es \<Rightarrow> map_option (Pair EOK) (readdir_loop file st es))"
  by (simp add: ProcessIncludeDirDirective_def split: option.splits)

lemma readdir_loop_append:
  "readdir_loop file st (es @ es') =
     (case readdir_loop file st es of None \<Rightarrow> None | Some st1 \<Rightarrow> readdir_loop file st1 es')"
  by (induction es arbitrary: st) (auto split: option.splits)

lemma readdir_loop_no_config:
  assumes "\<forall>e\<in>set es. GetConfigData env e = None"
  shows "readdir_loop (ProcessConfigFile env (Suc n)) st es = Some (skip_entries st es)"
  using assms
proof (induction es arbitrary: st)
  case Nil
  show ?case by (simp add: skip_entries_def)
next
  case (Cons e es)
  from Cons.prems have e: "GetConfigData env e = None" by simp
  have 1: "ProcessConfigFile env (Suc n) (st\<lparr>required := False\<rparr>) (Some e)
             = Some (EOK, emit (Enter e) (st\<lparr>required := False\<rparr>))"
    using ProcessConfigFile_no_data [OF e, of n "st\<lparr>required := False\<rparr>"] by simp
  have 2: "readdir_loop (ProcessConfigFile env (Suc n)) (emit (Enter e) (st\<lparr>required := False\<rparr>)) es
             = Some (skip_entries (emit (Enter e) (st\<lparr>required := False\<rparr>)) es)"
    by (rule Cons.IH) (use Cons.prems in simp)
  have 3: "skip_entries (emit (Enter e) (st\<lparr>required := False\<rparr>)) es = skip_entries st (e # es)"
    by (simp add: skip_entries_def emit_def)
  show ?case
    using 1 2 3 by (simp del: ProcessConfigFile.simps)
qed

lemma readdir_loop_record_names:
  "readdir_loop (record_names rc) st es = Some (skip_entries st es)"
proof (induction es arbitrary: st)
  case Nil
  show ?case by (simp add: skip_entries_def)
next
  case (Cons e es)
  have 3: "skip_entries (emit (Enter e) (st\<lparr>required := False\<rparr>)) es = skip_entries st (e # es)"
    by (simp add: skip_entries_def emit_def)
  show ?case
    using Cons.IH [of "emit (Enter e) (st\<lparr>required := False\<rparr>)"] 3
    by (simp add: record_names_def)
qed

subsection \<open>Termination of the calls\<close>

text \<open>
  When every call of \<open>file\<close> returns, so does every function that calls it; in
  particular the loop over the lines of a buffer reaches the end of the buffer.
\<close>

lemma ProcessIncludeDirective_total:
  assumes "\<And>s f. file s f \<noteq> None"
  shows "ProcessIncludeDirective file st a \<noteq> None"
  using assms by (cases a) (simp_all add: ProcessIncludeDirective_def)

lemma ProcessRequireDirective_total:
  assumes "\<And>s f. file s f \<noteq> None"
  shows "ProcessRequireDirective file st a \<noteq> None"
  using assms by (cases a) (simp_all add: ProcessRequireDirective_def)

lemma ProcessIncludeDirDirective_total:
  assumes "\<And>s f. file s f \<noteq> None"
  shows "ProcessIncludeDirDirective env file st a \<noteq> None"
proof (cases a)
  case None
  then show ?thesis by (simp add: ProcessIncludeDirDirective_def)
next
  case (Some d)
  show ?thesis
  proof (cases "opendir_entries env d")
    case None
    with Some show ?thesis by (simp add: ProcessIncludeDirDirective_def)
  next
    case entries: (Some es)
    have "readdir_loop file st es \<noteq> None"
      by (rule readdir_loop_total) (rule assms)
    then obtain st' where "readdir_loop file st es = Some st'" by auto
    with Some entries show ?thesis by (simp add: ProcessIncludeDirDirective_def)
  qed
qed

lemma ProcessDirective_total:
  assumes "\<And>s f. file s f \<noteq> None"
  shows "ProcessDirective env file st l \<noteq> None"
  using ProcessIncludeDirective_total [of "file", OF assms]
    ProcessRequireDirective_total [of "file", OF assms]
    ProcessIncludeDirDirective_total [of "file", OF assms]
  by (simp add: ProcessDirective_def Let_def split: prod.splits)

lemma ProcessConfigLine_total:
  assumes "\<And>s f. file s f \<noteq> None"
  shows "ProcessConfigLine env file st l \<noteq> None"
  using ProcessDirective_total [of "file", OF assms]
  by (simp add: ProcessConfigLine_def split: list.splits)

lemma ProcessConfigData_line_total:
  assumes "\<And>s f. file s f \<noteq> None"
  shows "ProcessConfigData_line env file st r seg \<noteq> None"
proof -
  obtain rc wb where e: "TEMPLATE_StrToFile env (hVarServer st) seg = (rc, wb)"
    by (cases "TEMPLATE_StrToFile env (hVarServer st) seg") auto
  obtain rc1 st1 where l: "ProcessConfigLine env file st wb = Some (rc1, st1)"
    using ProcessConfigLine_total [of "file", OF assms, of env st wb] by auto
  show ?thesis
    using e l by (simp add: ProcessConfigData_line_def Let_def)
qed

lemma line_results_total:
  assumes "\<And>s f. file s f \<noteq> None"
  shows "line_results env file st ls \<noteq> None"
proof (induction ls arbitrary: st)
  case Nil
  show ?case by simp
next
  case (Cons l ls)
  obtain rc st1 where 1: "ProcessConfigData_line env file st EOK l = Some (rc, st1)"
    using ProcessConfigData_line_total [of "file", OF assms, of env st EOK l] by auto
  obtain rcs st2 where 2: "line_results env file st1 ls = Some (rcs, st2)"
    using Cons.IH [of st1] by auto
  from 1 2 show ?case by simp
qed

subsection \<open>Evaluating the examples\<close>

lemmas demo_defs = demo_env_def demo_files_def demo_dirs_def demo_state_def demo_buffer_def roundtrip_buffer_def
  demo_after_lines_def demo_after_main_def demo_after_dir_def demo_in_sub_def
  demo_after_good_def nested_buffer_def demo_after_nested_def
  demo_after_entries_def demo_after_many_def NL_def NUL_def
  EOK_def EINVAL_def ENOENT_def ENOTSUP_def CONFIG_TAG_def

lemmas run_defs = ProcessConfigData_lines ProcessConfigData_line_def ProcessConfigLine_def
  ProcessDirective_def ProcessVariableAssignment_def ProcessConfigDirective_def
  ProcessIncludeDirective_def ProcessRequireDirective_def ProcessIncludeDirDirective_def
  strtok_r_def str_after_strtok_def Let_def emit_def LogError_def
  GetConfigData_def GetFileSize_def IsConfigFile_def ReadConfigData_def segments_def

lemma demo_lookup:
  "GetFileSize (demo_env b) ''tiny'' = 4"
  "fopen_read (demo_env b) ''notes.txt'' = Some ''plain text, no tag''"
  by (simp_all add: demo_env_def demo_files_def GetFileSize_def)

text \<open>
  In the example file system two levels of nesting are enough for every call of
  \<^verbatim>\<open>ProcessConfigFile\<close> to return.
\<close>

lemma demo_config_files:
  assumes "GetConfigData (demo_env b) name \<noteq> None"
  shows "name \<in> {''main.cfg'', ''sub.cfg'', ''good.cfg'', ''conf.d/only.cfg''}"
  using assms
  by (simp add: GetConfigData_def GetFileSize_def IsConfigFile_def demo_env_def demo_files_def
      CONFIG_TAG_def NL_def Let_def split: if_splits)

lemma demo_total:
  "ProcessConfigFile (demo_env False) (Suc (Suc 0)) s f \<noteq> None"
proof (cases f)
  case None
  then show ?thesis by simp
next
  case (Some name)
  show ?thesis
  proof (cases "GetConfigData (demo_env False) name")
    case None
    from ProcessConfigFile_no_data [OF this, of "Suc 0" s] Some show ?thesis
      by (simp del: ProcessConfigFile.simps)
  next
    case data: (Some d)
    then have "name \<in> {''main.cfg'', ''sub.cfg'', ''good.cfg'', ''conf.d/only.cfg''}"
      using demo_config_files [of False name] by simp
    then consider "name = ''main.cfg''" | "name = ''sub.cfg''" | "name = ''good.cfg''"
      | "name = ''conf.d/only.cfg''" by auto
    then show ?thesis
    proof cases
      case 1 with Some show ?thesis by (simp add: run_defs demo_defs)
    next
      case 2 with Some show ?thesis by (simp add: run_defs demo_defs)
    next
      case 3 with Some show ?thesis by (simp add: run_defs demo_defs)
    next
      case 4 with Some show ?thesis by (simp add: run_defs demo_defs)
    qed
  qed
qed

section \<open>The claims\<close>

text \<open>
  \<^bold>\<open>C1.\<close> When \<^verbatim>\<open>GetConfigData\<close> yields no data for the target (the file is missing,
  too short or lacks the leading tag, see C7), \<^verbatim>\<open>ProcessConfigFile\<close> returns \<open>EOK\<close>
  if the required flag is false and the error \<open>EINVAL\<close> if it is true. So
  \<^verbatim>\<open>@include\<close> of such a file succeeds and \<^verbatim>\<open>@require\<close> of it fails, both as
  directive functions and as lines handed to \<^verbatim>\<open>ProcessConfigLine\<close>; in the
  caller's loop a line that expands to such an \<^verbatim>\<open>@include\<close> leaves the result of
  the file as it was, and one that expands to such a \<^verbatim>\<open>@require\<close> makes it
  \<open>EINVAL\<close>. One level of nesting is enough for the call to return.
\<close>

theorem ProcessConfigFile_missing_target:
  assumes "GetConfigData env f = None"
  shows "(\<not> required st \<longrightarrow>
            ProcessConfigFile env (Suc n) st (Some f) = Some (EOK, emit (Enter f) st)) \<and>
         (required st \<longrightarrow>
            ProcessConfigFile env (Suc n) st (Some f)
              = Some (EINVAL, emit (Failed f) (emit (Enter f) st)) \<and> EINVAL \<noteq> EOK) \<and>
         ProcessIncludeDirective (ProcessConfigFile env (Suc n)) st (Some f)
           = Some (EOK, emit (Enter f) (st\<lparr>required := False\<rparr>)) \<and>
         ProcessRequireDirective (ProcessConfigFile env (Suc n)) st (Some f)
           = Some (EINVAL, emit (Failed f) (emit (Enter f) (st\<lparr>required := True\<rparr>))) \<and>
         ProcessConfigLine env (ProcessConfigFile env (Suc n)) st (''@include '' @ f)
           = Some (EOK, emit (Enter f) (st\<lparr>required := False\<rparr>)) \<and>
         ProcessConfigLine env (ProcessConfigFile env (Suc n)) st (''@require '' @ f)
           = Some (EINVAL, emit (Failed f) (emit (Enter f) (st\<lparr>required := True\<rparr>))) \<and>
         (\<forall>seg. TEMPLATE_StrToFile env (hVarServer st) seg = (EOK, ''@include '' @ f) \<longrightarrow>
            (\<exists>st'. ProcessConfigData_line env (ProcessConfigFile env (Suc n)) st r seg
                     = Some (r, st'))) \<and>
         (\<forall>seg. TEMPLATE_StrToFile env (hVarServer st) seg = (EOK, ''@require '' @ f) \<longrightarrow>
            (\<exists>st'. ProcessConfigData_line env (ProcessConfigFile env (Suc n)) st r seg
                     = Some (EINVAL, st')))"
proof -
  note nodata = ProcessConfigFile_no_data [OF assms]
  have 4: "ProcessIncludeDirective (ProcessConfigFile env (Suc n)) st (Some f)
           = Some (EOK, emit (Enter f) (st\<lparr>required := False\<rparr>))"
    unfolding ProcessIncludeDirective_def by (simp only: option.case nodata) simp
  have 5: "ProcessRequireDirective (ProcessConfigFile env (Suc n)) st (Some f)
           = Some (EINVAL, emit (Failed f) (emit (Enter f) (st\<lparr>required := True\<rparr>)))"
    unfolding ProcessRequireDirective_def by (simp only: option.case nodata) simp
  note 6 = ProcessConfigLine_args(1) [of env "ProcessConfigFile env (Suc n)" st f]
  note 7 = ProcessConfigLine_args(2) [of env "ProcessConfigFile env (Suc n)" st f]
  have 8: "\<exists>st'. ProcessConfigData_line env (ProcessConfigFile env (Suc n)) st r seg
                     = Some (r, st')"
    if "TEMPLATE_StrToFile env (hVarServer st) seg = (EOK, ''@include '' @ f)" for seg
    unfolding ProcessConfigData_line_def that by (simp only: prod.case 6 4) simp
  have 9: "\<exists>st'. ProcessConfigData_line env (ProcessConfigFile env (Suc n)) st r seg
                     = Some (EINVAL, st')"
    if "TEMPLATE_StrToFile env (hVarServer st) seg = (EOK, ''@require '' @ f)" for seg
    unfolding ProcessConfigData_line_def that using EOK_neq_EINVAL
    by (simp only: prod.case 7 5) (simp add: Let_def)
  have "(\<not> required st \<longrightarrow>
            ProcessConfigFile env (Suc n) st (Some f) = Some (EOK, emit (Enter f) st)) \<and>
         (required st \<longrightarrow>
            ProcessConfigFile env (Suc n) st (Some f)
              = Some (EINVAL, emit (Failed f) (emit (Enter f) st)) \<and> EINVAL \<noteq> EOK)"
    unfolding nodata using EOK_neq_EINVAL by simp
  with 4 5 6 7 8 9 show ?thesis by (simp only:) blast
qed

theorem ProcessConfigFile_missing_target_witness:
  "GetConfigData (demo_env False) ''missing.cfg'' = None \<and>
   required demo_state \<and>
   ProcessConfigFile (demo_env False) (Suc 0) demo_state (Some ''missing.cfg'')
     = Some (EINVAL, emit (Failed ''missing.cfg'') (emit (Enter ''missing.cfg'') demo_state)) \<and>
   \<not> required (demo_state\<lparr>required := False\<rparr>) \<and>
   ProcessConfigFile (demo_env False) (Suc 0) (demo_state\<lparr>required := False\<rparr>)
       (Some ''missing.cfg'')
     = Some (EOK, emit (Enter ''missing.cfg'') (demo_state\<lparr>required := False\<rparr>)) \<and>
   ProcessConfigLine (demo_env False) (ProcessConfigFile (demo_env False) (Suc 0)) demo_state
       ''@include missing.cfg''
     = Some (EOK, emit (Enter ''missing.cfg'') (demo_state\<lparr>required := False\<rparr>)) \<and>
   ProcessConfigLine (demo_env False) (ProcessConfigFile (demo_env False) (Suc 0)) demo_state
       ''@require missing.cfg''
     = Some (EINVAL, emit (Failed ''missing.cfg'')
               (emit (Enter ''missing.cfg'') (demo_state\<lparr>required := True\<rparr>))) \<and>
   TEMPLATE_StrToFile (demo_env False) (hVarServer demo_state) ''@include missing.cfg''
     = (EOK, ''@include missing.cfg'') \<and>
   (\<exists>st'. ProcessConfigData_line (demo_env False) (ProcessConfigFile (demo_env False) (Suc 0))
            demo_state ENOENT ''@include missing.cfg'' = Some (ENOENT, st')) \<and>
   TEMPLATE_StrToFile (demo_env False) (hVarServer demo_state) ''@require missing.cfg''
     = (EOK, ''@require missing.cfg'') \<and>
   (\<exists>st'. ProcessConfigData_line (demo_env False) (ProcessConfigFile (demo_env False) (Suc 0))
            demo_state EOK ''@require missing.cfg'' = Some (EINVAL, st'))"
proof -
  let ?E = "demo_env False"
  have h: "GetConfigData ?E ''missing.cfg'' = None"
    by (simp add: GetConfigData_def GetFileSize_def demo_defs)
  have r: "required demo_state" by (simp add: demo_state_def)
  have r': "\<not> required (demo_state\<lparr>required := False\<rparr>)" by simp
  have t1: "TEMPLATE_StrToFile ?E (hVarServer demo_state) ''@include missing.cfg''
              = (EOK, ''@include '' @ ''missing.cfg'')"
    and t2: "TEMPLATE_StrToFile ?E (hVarServer demo_state) ''@require missing.cfg''
              = (EOK, ''@require '' @ ''missing.cfg'')"
    by (simp_all add: demo_env_def)
  note T = ProcessConfigFile_missing_target [OF h, where n = 0]
  from T [where st = demo_state and r = ENOENT] t1
  have p1: "\<exists>st'. ProcessConfigData_line ?E (ProcessConfigFile ?E (Suc 0))
            demo_state ENOENT ''@include missing.cfg'' = Some (ENOENT, st')"
    by blast
  from T [where st = demo_state and r = EOK] t2
  have p2: "\<exists>st'. ProcessConfigData_line ?E (ProcessConfigFile ?E (Suc 0))
            demo_state EOK ''@require missing.cfg'' = Some (EINVAL, st')"
    by blast
  from T [where st = demo_state and r = EOK] r
  have a: "ProcessConfigFile ?E (Suc 0) demo_state (Some ''missing.cfg'')
     = Some (EINVAL, emit (Failed ''missing.cfg'') (emit (Enter ''missing.cfg'') demo_state))"
    and c: "ProcessConfigLine ?E (ProcessConfigFile ?E (Suc 0)) demo_state
       (''@include '' @ ''missing.cfg'')
     = Some (EOK, emit (Enter ''missing.cfg'') (demo_state\<lparr>required := False\<rparr>))"
    and d: "ProcessConfigLine ?E (ProcessConfigFile ?E (Suc 0)) demo_state
       (''@require '' @ ''missing.cfg'')
     = Some (EINVAL, emit (Failed ''missing.cfg'')
               (emit (Enter ''missing.cfg'') (demo_state\<lparr>required := True\<rparr>)))"
    by blast+
  from T [where st = "demo_state\<lparr>required := False\<rparr>" and r = EOK] r'
  have b: "ProcessConfigFile ?E (Suc 0) (demo_state\<lparr>required := False\<rparr>)
       (Some ''missing.cfg'')
     = Some (EOK, emit (Enter ''missing.cfg'') (demo_state\<lparr>required := False\<rparr>))"
    by blast
  from h r r' a b c d t1 t2 p1 p2 show ?thesis by simp
qed

text \<open>
  \<^bold>\<open>C2.\<close> A failing line never ends the loop of \<^verbatim>\<open>ProcessConfigData\<close>. The body
  of the loop returns in each of its outcomes: when the expansion of the line fails with a
  code \<open>rc\<close>, it logs the error, raises the line number and returns \<open>rc\<close>; when the
  expansion succeeds and the processing of the expanded line returns a code other than
  \<open>EOK\<close>, it logs \<^verbatim>\<open>Config error\<close>, raises the line number and returns that
  code; when both succeed it returns the result it was given. An expanded line that is
  neither a comment nor a directive always returns, with the code of the assignment. The
  loop goes on behind the first line with its code and its state, whatever the code is.
  The outcome of \<^verbatim>\<open>ProcessConfigData\<close> is that of running the body over all
  segments of the buffer in order, one return code per segment, and its result is the
  code of the last line that failed, \<open>EOK\<close> when none did. When every nested call of
  \<^verbatim>\<open>ProcessConfigFile\<close> returns, \<^verbatim>\<open>ProcessConfigData\<close> returns, with one code
  for every segment of the buffer.
\<close>

theorem ProcessConfigData_continues:
  "(\<forall>rc wb. TEMPLATE_StrToFile env (hVarServer st) l = (rc, wb) \<and> rc \<noteq> EOK \<longrightarrow>
      ProcessConfigData_line env (ProcessConfigFile env n) st r l
        = Some (rc, (LogError st ''Variable Expansion error'')\<lparr>lineno := lineno st + 1\<rparr>)) \<and>
   (\<forall>wb rc st1. TEMPLATE_StrToFile env (hVarServer st) l = (EOK, wb) \<and>
      ProcessConfigLine env (ProcessConfigFile env n) st wb = Some (rc, st1) \<and> rc \<noteq> EOK \<longrightarrow>
      ProcessConfigData_line env (ProcessConfigFile env n) st r l
        = Some (rc, (LogError st1 ''Config error'')\<lparr>lineno := lineno st1 + 1\<rparr>)) \<and>
   (\<forall>wb st1. TEMPLATE_StrToFile env (hVarServer st) l = (EOK, wb) \<and>
      ProcessConfigLine env (ProcessConfigFile env n) st wb = Some (EOK, st1) \<longrightarrow>
      ProcessConfigData_line env (ProcessConfigFile env n) st r l
        = Some (r, st1\<lparr>lineno := lineno st1 + 1\<rparr>)) \<and>
   (\<forall>c cs. c \<noteq> CHR ''#'' \<and> c \<noteq> CHR ''@'' \<longrightarrow>
      ProcessConfigLine env (ProcessConfigFile env n) st (c # cs)
        = Some (ProcessVariableAssignment env st (c # cs))) \<and>
   (\<forall>rest. NL \<notin> set l \<and> NUL \<notin> set l \<longrightarrow>
      ProcessConfigData env (ProcessConfigFile env n) st (l @ NL # rest) =
        (case ProcessConfigData_line env (ProcessConfigFile env n) st EOK l of
           None \<Rightarrow> None
         | Some (r1, st1) \<Rightarrow> ProcessLines env (ProcessConfigFile env n) st1 r1 (segments rest))) \<and>
   ProcessConfigData env (ProcessConfigFile env n) st buf =
     map_option (\<lambda>(rcs, st'). (last_error rcs, st'))
       (line_results env (ProcessConfigFile env n) st (segments buf)) \<and>
   (\<forall>rcs st'. line_results env (ProcessConfigFile env n) st (segments buf) = Some (rcs, st')
      \<longrightarrow> length rcs = length (segments buf)) \<and>
   ((\<forall>s f. ProcessConfigFile env n s f \<noteq> None) \<longrightarrow>
      (\<exists>rcs st'. line_results env (ProcessConfigFile env n) st (segments buf) = Some (rcs, st') \<and>
         length rcs = length (segments buf) \<and>
         ProcessConfigData env (ProcessConfigFile env n) st buf = Some (last_error rcs, st')))"
proof -
  let ?F = "ProcessConfigFile env n"
  have a: "ProcessConfigData_line env ?F st r l
        = Some (rc, (LogError st ''Variable Expansion error'')\<lparr>lineno := lineno st + 1\<rparr>)"
    if "TEMPLATE_StrToFile env (hVarServer st) l = (rc, wb)" "rc \<noteq> EOK" for rc wb
    using that by (rule ProcessConfigData_line_expansion_error)
  have b: "ProcessConfigData_line env ?F st r l
        = Some (rc, (LogError st1 ''Config error'')\<lparr>lineno := lineno st1 + 1\<rparr>)"
    if "TEMPLATE_StrToFile env (hVarServer st) l = (EOK, wb)"
       "ProcessConfigLine env ?F st wb = Some (rc, st1)" "rc \<noteq> EOK" for wb rc st1
    using that by (rule ProcessConfigData_line_config_error)
  have c: "ProcessConfigData_line env ?F st r l = Some (r, st1\<lparr>lineno := lineno st1 + 1\<rparr>)"
    if "TEMPLATE_StrToFile env (hVarServer st) l = (EOK, wb)"
       "ProcessConfigLine env ?F st wb = Some (EOK, st1)" for wb st1
    using that by (rule ProcessConfigData_line_ok)
  have d: "ProcessConfigLine env ?F st (c # cs) = Some (ProcessVariableAssignment env st (c # cs))"
    if "c \<noteq> CHR ''#''" "c \<noteq> CHR ''@''" for c cs
    using that by (rule ProcessConfigLine_assignment)
  have e: "ProcessConfigData env ?F st (l @ NL # rest) =
        (case ProcessConfigData_line env ?F st EOK l of
           None \<Rightarrow> None
         | Some (r1, st1) \<Rightarrow> ProcessLines env ?F st1 r1 (segments rest))"
    if "NL \<notin> set l" "NUL \<notin> set l" for rest
  proof -
    have "takeWhile (\<lambda>c. c \<noteq> NUL) (l @ NL # rest) = l @ NL # takeWhile (\<lambda>c. c \<noteq> NUL) rest"
      using that(2) NL_neq_NUL by (induction l) auto
    then have "segments (l @ NL # rest) = l # segments rest"
      by (simp add: segments_def split_lines_append_NL split_lines_no_NL that(1))
    then show ?thesis by (simp add: ProcessConfigData_lines)
  qed
  have pe: "pick_error EOK = (\<lambda>rc. rc)" by (auto simp: pick_error_def)
  have f: "ProcessConfigData env ?F st buf =
     map_option (\<lambda>(rcs, st'). (last_error rcs, st')) (line_results env ?F st (segments buf))"
    by (simp add: ProcessConfigData_lines ProcessLines_line_results pe)
  have g: "length rcs = length (segments buf)"
    if "line_results env ?F st (segments buf) = Some (rcs, st')" for rcs st'
    using that by (rule line_results_length)
  have h: "\<exists>rcs st'. line_results env ?F st (segments buf) = Some (rcs, st') \<and>
         length rcs = length (segments buf) \<and>
         ProcessConfigData env ?F st buf = Some (last_error rcs, st')"
    if "\<forall>s f. ?F s f \<noteq> None"
  proof -
    have "line_results env ?F st (segments buf) \<noteq> None"
      by (rule line_results_total) (use that in blast)
    then obtain rcs st' where 1: "line_results env ?F st (segments buf) = Some (rcs, st')"
      by auto
    with f g show ?thesis by simp
  qed
  from a b c d e f g h show ?thesis by blast
qed

theorem ProcessConfigData_continues_witness:
  "TEMPLATE_StrToFile (demo_env False) (hVarServer demo_state) ''a ${v}'' = (ENOENT, []) \<and>
   ENOENT \<noteq> EOK \<and>
   ProcessConfigData_line (demo_env False) (ProcessConfigFile (demo_env False) (Suc (Suc 0)))
       demo_state EOK ''a ${v}''
     = Some (ENOENT, (LogError demo_state ''Variable Expansion error'')
                       \<lparr>lineno := lineno demo_state + 1\<rparr>) \<and>
   TEMPLATE_StrToFile (demo_env False) (hVarServer demo_state) ''@bogus'' = (EOK, ''@bogus'') \<and>
   ProcessConfigLine (demo_env False) (ProcessConfigFile (demo_env False) (Suc (Suc 0)))
       demo_state ''@bogus''
     = Some (ENOTSUP, LogError demo_state ''unknown directive'') \<and>
   ENOTSUP \<noteq> EOK \<and>
   ProcessConfigData_line (demo_env False) (ProcessConfigFile (demo_env False) (Suc (Suc 0)))
       demo_state EOK ''@bogus''
     = Some (ENOTSUP, (LogError (LogError demo_state ''unknown directive'') ''Config error'')
                        \<lparr>lineno := lineno (LogError demo_state ''unknown directive'') + 1\<rparr>) \<and>
   ProcessConfigLine (demo_env False) (ProcessConfigFile (demo_env False) (Suc (Suc 0)))
       demo_state ''/nope 1''
     = Some (ProcessVariableAssignment (demo_env False) demo_state ''/nope 1'') \<and>
   fst (ProcessVariableAssignment (demo_env False) demo_state ''/nope 1'') = ENOENT \<and>
   NL \<notin> set ''a ${v}'' \<and> NUL \<notin> set ''a ${v}'' \<and>
   ProcessConfigData (demo_env False) (ProcessConfigFile (demo_env False) (Suc (Suc 0)))
       demo_state (''a ${v}'' @ NL # ''/sys/y=2'')
     = ProcessLines (demo_env False) (ProcessConfigFile (demo_env False) (Suc (Suc 0)))
         ((LogError demo_state ''Variable Expansion error'')\<lparr>lineno := lineno demo_state + 1\<rparr>)
         ENOENT (segments ''/sys/y=2'') \<and>
   ProcessConfigData (demo_env False) (ProcessConfigFile (demo_env False) (Suc (Suc 0)))
       demo_state (''a ${v}'' @ NL # ''/sys/y=2'')
     = Some (ENOENT,
         \<lparr> hVarServer = [(''/sys/y'', ''2'')], verbose = False,
           pFileName = Some ''root.cfg'', lineno = 9, required = True,
           trace = [LogErr ''Variable Expansion error'' (Some ''root.cfg'') 7,
                    SetVar ''/sys/y'' ''2''] \<rparr>) \<and>
   (\<forall>s f. ProcessConfigFile (demo_env False) (Suc (Suc 0)) s f \<noteq> None) \<and>
   (\<exists>rcs st'. line_results (demo_env False) (ProcessConfigFile (demo_env False) (Suc (Suc 0)))
                 demo_state (segments nested_buffer) = Some (rcs, st') \<and>
      length rcs = length (segments nested_buffer) \<and>
      ProcessConfigData (demo_env False) (ProcessConfigFile (demo_env False) (Suc (Suc 0)))
          demo_state nested_buffer = Some (last_error rcs, st')) \<and>
   line_results (demo_env False) (ProcessConfigFile (demo_env False) (Suc (Suc 0))) demo_state
       (segments nested_buffer)
     = Some ([ENOTSUP, ENOENT, EOK, EOK, EOK], demo_after_nested) \<and>
   ProcessConfigData (demo_env False) (ProcessConfigFile (demo_env False) (Suc (Suc 0)))
       demo_state nested_buffer = Some (ENOENT, demo_after_nested) \<and>
   set_calls (trace demo_after_nested)
     = [(''/sub/c'', ''3''), (''/sys/x'', ''1''), (''/sys/y'', ''2'')]"
proof -
  let ?E = "demo_env False"
  let ?F = "ProcessConfigFile ?E (Suc (Suc 0))"
  have t1: "TEMPLATE_StrToFile ?E (hVarServer demo_state) ''a ${v}'' = (ENOENT, [])"
    and t2: "TEMPLATE_StrToFile ?E (hVarServer demo_state) ''@bogus'' = (EOK, ''@bogus'')"
    by (simp_all add: demo_env_def)
  have ne: "ENOENT \<noteq> EOK" "ENOTSUP \<noteq> EOK" by (simp_all add: demo_defs)
  have bogus: "ProcessConfigLine ?E ?F demo_state ''@bogus''
                 = Some (ENOTSUP, LogError demo_state ''unknown directive'')"
    by (simp add: ProcessConfigLine_def ProcessDirective_def strtok_r_def str_after_strtok_def Let_def)
  have ch: "CHR ''/'' \<noteq> CHR ''#'' \<and> CHR ''/'' \<noteq> CHR ''@''" by simp
  have nope: "fst (ProcessVariableAssignment ?E demo_state ''/nope 1'') = ENOENT"
    by (simp add: run_defs demo_defs)
  have nl: "NL \<notin> set ''a ${v}'' \<and> NUL \<notin> set ''a ${v}''" by (simp add: NL_def NUL_def)
  have two: "ProcessConfigData ?E ?F demo_state (''a ${v}'' @ NL # ''/sys/y=2'')
     = Some (ENOENT,
         \<lparr> hVarServer = [(''/sys/y'', ''2'')], verbose = False,
           pFileName = Some ''root.cfg'', lineno = 9, required = True,
           trace = [LogErr ''Variable Expansion error'' (Some ''root.cfg'') 7,
                    SetVar ''/sys/y'' ''2''] \<rparr>)"
    by (simp add: run_defs demo_defs)
  have run: "line_results ?E ?F demo_state (segments nested_buffer)
               = Some ([ENOTSUP, ENOENT, EOK, EOK, EOK], demo_after_nested)"
    by (simp add: run_defs demo_defs)
  have le: "last_error [ENOTSUP, ENOENT, EOK, EOK, EOK] = ENOENT"
    by (simp add: last_error_def demo_defs)
  have sc: "set_calls (trace demo_after_nested)
     = [(''/sub/c'', ''3''), (''/sys/x'', ''1''), (''/sys/y'', ''2'')]"
    by (simp add: demo_after_nested_def)
  have tot: "\<forall>s f. ?F s f \<noteq> None" using demo_total by blast
  note T = ProcessConfigData_continues [where env = ?E and n = "Suc (Suc 0)" and st = demo_state
             and r = EOK and buf = nested_buffer]
  have a: "ProcessConfigData_line ?E ?F demo_state EOK ''a ${v}''
     = Some (ENOENT, (LogError demo_state ''Variable Expansion error'')
                       \<lparr>lineno := lineno demo_state + 1\<rparr>)"
    using T [where l = "''a ${v}''", THEN conjunct1, rule_format, of ENOENT "[]"] t1 ne(1)
    by simp
  have b: "ProcessConfigData_line ?E ?F demo_state EOK ''@bogus''
     = Some (ENOTSUP, (LogError (LogError demo_state ''unknown directive'') ''Config error'')
                        \<lparr>lineno := lineno (LogError demo_state ''unknown directive'') + 1\<rparr>)"
    using T [where l = "''@bogus''", THEN conjunct2, THEN conjunct1, rule_format,
             of "''@bogus''" ENOTSUP "LogError demo_state ''unknown directive''"]
      t2 bogus ne(2)
    by simp
  have d: "ProcessConfigLine ?E ?F demo_state ''/nope 1''
     = Some (ProcessVariableAssignment ?E demo_state ''/nope 1'')"
    using T [where l = "[]", THEN conjunct2, THEN conjunct2, THEN conjunct2, THEN conjunct1,
             rule_format, of "CHR ''/''" "''nope 1''"]
    by simp
  have "ProcessConfigData ?E ?F demo_state (''a ${v}'' @ NL # ''/sys/y=2'') =
        (case ProcessConfigData_line ?E ?F demo_state EOK ''a ${v}'' of
           None \<Rightarrow> None
         | Some (r1, st1) \<Rightarrow> ProcessLines ?E ?F st1 r1 (segments ''/sys/y=2''))"
    using T [where l = "''a ${v}''", THEN conjunct2, THEN conjunct2, THEN conjunct2,
             THEN conjunct2, THEN conjunct1, rule_format, of "''/sys/y=2''"] nl
    by blast
  then have e: "ProcessConfigData ?E ?F demo_state (''a ${v}'' @ NL # ''/sys/y=2'')
     = ProcessLines ?E ?F
         ((LogError demo_state ''Variable Expansion error'')\<lparr>lineno := lineno demo_state + 1\<rparr>)
         ENOENT (segments ''/sys/y=2'')"
    unfolding a by simp
  have h: "\<exists>rcs st'. line_results ?E ?F demo_state (segments nested_buffer) = Some (rcs, st') \<and>
      length rcs = length (segments nested_buffer) \<and>
      ProcessConfigData ?E ?F demo_state nested_buffer = Some (last_error rcs, st')"
    using T [where l = "[]", THEN conjunct2, THEN conjunct2, THEN conjunct2, THEN conjunct2,
             THEN conjunct2, THEN conjunct2, THEN conjunct2, rule_format] tot
    by blast
  have f: "ProcessConfigData ?E ?F demo_state nested_buffer = Some (ENOENT, demo_after_nested)"
    using h run le by auto
  show ?thesis
    apply (intro conjI)
    using t1 ne a t2 bogus b d nope nl e two tot h run f sc by blast+
qed

text \<open>
  \<^bold>\<open>C3.\<close> A call of \<^verbatim>\<open>ProcessConfigFile\<close> with a file name that returns, at any
  nesting depth and with any result, leaves \<open>pFileName\<close> and \<open>lineno\<close> as they were on
  entry. When the target loads, its data is processed in the state whose line number is
  1 and whose file name is the target, and the two fields are set back afterwards.
\<close>

theorem ProcessConfigFile_position:
  "(\<forall>rc st'. ProcessConfigFile env n st (Some f) = Some (rc, st') \<longrightarrow>
      pFileName st' = pFileName st \<and> lineno st' = lineno st) \<and>
   (\<forall>d. GetConfigData env f = Some d \<longrightarrow>
      ProcessConfigFile env (Suc n) st (Some f) =
        (case ProcessConfigData env (ProcessConfigFile env n)
                ((emit (Enter f) st)\<lparr>lineno := 1, pFileName := Some f\<rparr>) d of
           None \<Rightarrow> None
         | Some (rc, st3) \<Rightarrow>
             Some (rc, if rc \<noteq> EOK
                       then emit (Failed f) (st3\<lparr>pFileName := pFileName st, lineno := lineno st\<rparr>)
                       else st3\<lparr>pFileName := pFileName st, lineno := lineno st\<rparr>)))"
proof -
  have restore: "pFileName st' = pFileName st \<and> lineno st' = lineno st"
    if "ProcessConfigFile env n st (Some f) = Some (rc, st')" for rc st'
    using keeps_positionD [OF ProcessConfigFile_keeps that] by simp
  have entry: "ProcessConfigFile env (Suc n) st (Some f) =
        (case ProcessConfigData env (ProcessConfigFile env n)
                ((emit (Enter f) st)\<lparr>lineno := 1, pFileName := Some f\<rparr>) d of
           None \<Rightarrow> None
         | Some (rc, st3) \<Rightarrow>
             Some (rc, if rc \<noteq> EOK
                       then emit (Failed f) (st3\<lparr>pFileName := pFileName st, lineno := lineno st\<rparr>)
                       else st3\<lparr>pFileName := pFileName st, lineno := lineno st\<rparr>))"
    if "GetConfigData env f = Some d" for d
    using that by (simp add: Let_def split: option.splits)
  from restore entry show ?thesis by blast
qed

theorem ProcessConfigFile_position_witness:
  "ProcessConfigFile (demo_env False) (Suc (Suc 0)) demo_state (Some ''main.cfg'')
     = Some (ENOTSUP, demo_after_main) \<and>
   pFileName demo_after_main = pFileName demo_state \<and>
   lineno demo_after_main = lineno demo_state \<and>
   GetConfigData (demo_env False) ''sub.cfg''
     = Some (join_lines [''@config sub'', ''/sub/a=${b}'', ''/sub/c 3'']) \<and>
   ProcessConfigFile (demo_env False) (Suc 0) demo_state (Some ''sub.cfg'') =
     (case ProcessConfigData (demo_env False) (ProcessConfigFile (demo_env False) 0)
             ((emit (Enter ''sub.cfg'') demo_state)\<lparr>lineno := 1, pFileName := Some ''sub.cfg''\<rparr>)
             (join_lines [''@config sub'', ''/sub/a=${b}'', ''/sub/c 3'']) of
        None \<Rightarrow> None
      | Some (rc, st3) \<Rightarrow>
          Some (rc, if rc \<noteq> EOK
                    then emit (Failed ''sub.cfg'')
                           (st3\<lparr>pFileName := pFileName demo_state, lineno := lineno demo_state\<rparr>)
                    else st3\<lparr>pFileName := pFileName demo_state, lineno := lineno demo_state\<rparr>)) \<and>
   ProcessConfigData (demo_env False) (ProcessConfigFile (demo_env False) 0)
       ((emit (Enter ''sub.cfg'') demo_state)\<lparr>lineno := 1, pFileName := Some ''sub.cfg''\<rparr>)
       (join_lines [''@config sub'', ''/sub/a=${b}'', ''/sub/c 3''])
     = Some (ENOENT, demo_in_sub)"
proof -
  have run: "ProcessConfigFile (demo_env False) (Suc (Suc 0)) demo_state (Some ''main.cfg'')
     = Some (ENOTSUP, demo_after_main)"
    by (simp add: run_defs demo_defs)
  have g: "GetConfigData (demo_env False) ''sub.cfg''
     = Some (join_lines [''@config sub'', ''/sub/a=${b}'', ''/sub/c 3''])"
    by (simp add: GetConfigData_def GetFileSize_def IsConfigFile_def ReadConfigData_def demo_defs)
  from ProcessConfigFile_position
         [of "demo_env False" "Suc (Suc 0)" demo_state "''main.cfg''"] run
  have pos: "pFileName demo_after_main = pFileName demo_state \<and>
        lineno demo_after_main = lineno demo_state" by blast
  from ProcessConfigFile_position
         [of "demo_env False" 0 demo_state "''sub.cfg''"] g
  have entry: "ProcessConfigFile (demo_env False) (Suc 0) demo_state (Some ''sub.cfg'') =
     (case ProcessConfigData (demo_env False) (ProcessConfigFile (demo_env False) 0)
             ((emit (Enter ''sub.cfg'') demo_state)\<lparr>lineno := 1, pFileName := Some ''sub.cfg''\<rparr>)
             (join_lines [''@config sub'', ''/sub/a=${b}'', ''/sub/c 3'']) of
        None \<Rightarrow> None
      | Some (rc, st3) \<Rightarrow>
          Some (rc, if rc \<noteq> EOK
                    then emit (Failed ''sub.cfg'')
                           (st3\<lparr>pFileName := pFileName demo_state, lineno := lineno demo_state\<rparr>)
                    else st3\<lparr>pFileName := pFileName demo_state, lineno := lineno demo_state\<rparr>))"
    by blast
  have inner: "ProcessConfigData (demo_env False) (ProcessConfigFile (demo_env False) 0)
       ((emit (Enter ''sub.cfg'') demo_state)\<lparr>lineno := 1, pFileName := Some ''sub.cfg''\<rparr>)
       (join_lines [''@config sub'', ''/sub/a=${b}'', ''/sub/c 3''])
     = Some (ENOENT, demo_in_sub)"
    by (simp add: run_defs demo_defs)
  from run g pos entry inner show ?thesis by blast
qed

text \<open>
  \<^bold>\<open>C4\<close> (as amended). The state holds one file name, one line number and one required
  flag. Every directive, hence every recursion a directive starts, returns with the
  caller's file name and line number, and so does \<^verbatim>\<open>ProcessConfigFile\<close>. The
  required flag is not saved or restored: \<^verbatim>\<open>ProcessConfigFile\<close> hands it back as
  the processing of the target left it, \<^verbatim>\<open>@include\<close> sets it to false and
  \<^verbatim>\<open>@require\<close> to true before the nested call, and after a directive whose target
  is not a configuration file the caller finds the flag as the directive set it,
  whatever it was before.
\<close>

theorem directive_recursion_frame:
  "(\<forall>rc st'. ProcessDirective env (ProcessConfigFile env n) st line = Some (rc, st') \<longrightarrow>
      pFileName st' = pFileName st \<and> lineno st' = lineno st) \<and>
   (\<forall>rc st'. ProcessConfigFile env n st (Some f) = Some (rc, st') \<longrightarrow>
      pFileName st' = pFileName st \<and> lineno st' = lineno st) \<and>
   (GetConfigData env f = None \<longrightarrow>
      (\<exists>rc st'. ProcessIncludeDirective (ProcessConfigFile env (Suc n)) st (Some f) = Some (rc, st')
          \<and> required st' = False) \<and>
      (\<exists>rc st'. ProcessRequireDirective (ProcessConfigFile env (Suc n)) st (Some f) = Some (rc, st')
          \<and> required st' = True) \<and>
      (\<exists>rc st'. ProcessConfigFile env (Suc n) st (Some f) = Some (rc, st')
          \<and> required st' = required st)) \<and>
   (\<forall>d rc st3. GetConfigData env f = Some d \<and>
      ProcessConfigData env (ProcessConfigFile env n)
        ((emit (Enter f) st)\<lparr>lineno := 1, pFileName := Some f\<rparr>) d = Some (rc, st3) \<longrightarrow>
      (\<exists>st'. ProcessConfigFile env (Suc n) st (Some f) = Some (rc, st') \<and>
             required st' = required st3))"
proof -
  have a: "pFileName st' = pFileName st \<and> lineno st' = lineno st"
    if "ProcessDirective env (ProcessConfigFile env n) st line = Some (rc, st')" for rc st'
    using ProcessDirective_frame [OF ProcessConfigFile_keeps that] .
  have b: "pFileName st' = pFileName st \<and> lineno st' = lineno st"
    if "ProcessConfigFile env n st (Some f) = Some (rc, st')" for rc st'
    using keeps_positionD [OF ProcessConfigFile_keeps that] by simp
  have c: "(\<exists>rc st'. ProcessIncludeDirective (ProcessConfigFile env (Suc n)) st (Some f) = Some (rc, st')
          \<and> required st' = False) \<and>
      (\<exists>rc st'. ProcessRequireDirective (ProcessConfigFile env (Suc n)) st (Some f) = Some (rc, st')
          \<and> required st' = True) \<and>
      (\<exists>rc st'. ProcessConfigFile env (Suc n) st (Some f) = Some (rc, st')
          \<and> required st' = required st)"
    if "GetConfigData env f = None"
    using ProcessConfigFile_no_data [OF that, of n "st\<lparr>required := False\<rparr>"]
          ProcessConfigFile_no_data [OF that, of n "st\<lparr>required := True\<rparr>"]
          ProcessConfigFile_no_data [OF that, of n st]
    by (simp add: ProcessIncludeDirective_def ProcessRequireDirective_def
        del: ProcessConfigFile.simps)
  have d: "\<exists>st'. ProcessConfigFile env (Suc n) st (Some f) = Some (rc, st') \<and>
             required st' = required st3"
    if "GetConfigData env f = Some d"
       "ProcessConfigData env (ProcessConfigFile env n)
          ((emit (Enter f) st)\<lparr>lineno := 1, pFileName := Some f\<rparr>) d = Some (rc, st3)"
    for d rc st3
    using that by (simp add: Let_def)
  from a b c d show ?thesis by blast
qed

theorem directive_recursion_frame_witness:
  "GetConfigData (demo_env False) ''missing.cfg'' = None \<and>
   required demo_state \<and>
   (\<exists>rc st'. ProcessIncludeDirective (ProcessConfigFile (demo_env False) (Suc 0)) demo_state
                (Some ''missing.cfg'') = Some (rc, st') \<and> required st' = False) \<and>
   ProcessDirective (demo_env False) (ProcessConfigFile (demo_env False) (Suc (Suc 0)))
       demo_state ''@include main.cfg''
     = Some (ENOTSUP, demo_after_main) \<and>
   pFileName demo_after_main = pFileName demo_state \<and>
   lineno demo_after_main = lineno demo_state \<and>
   GetConfigData (demo_env False) ''sub.cfg''
     = Some (join_lines [''@config sub'', ''/sub/a=${b}'', ''/sub/c 3'']) \<and>
   ProcessConfigData (demo_env False) (ProcessConfigFile (demo_env False) 0)
       ((emit (Enter ''sub.cfg'') demo_state)\<lparr>lineno := 1, pFileName := Some ''sub.cfg''\<rparr>)
       (join_lines [''@config sub'', ''/sub/a=${b}'', ''/sub/c 3''])
     = Some (ENOENT, demo_in_sub) \<and>
   (\<exists>st'. ProcessConfigFile (demo_env False) (Suc 0) demo_state (Some ''sub.cfg'')
            = Some (ENOENT, st') \<and> required st' = required demo_in_sub)"
proof -
  let ?E = "demo_env False"
  have h: "GetConfigData ?E ''missing.cfg'' = None"
    by (simp add: GetConfigData_def GetFileSize_def demo_defs)
  have r: "required demo_state" by (simp add: demo_state_def)
  have run: "ProcessDirective ?E (ProcessConfigFile ?E (Suc (Suc 0))) demo_state
      ''@include main.cfg'' = Some (ENOTSUP, demo_after_main)"
    by (simp add: run_defs demo_defs)
  have g: "GetConfigData ?E ''sub.cfg''
     = Some (join_lines [''@config sub'', ''/sub/a=${b}'', ''/sub/c 3''])"
    by (simp add: GetConfigData_def GetFileSize_def IsConfigFile_def ReadConfigData_def demo_defs)
  have inner: "ProcessConfigData ?E (ProcessConfigFile ?E 0)
       ((emit (Enter ''sub.cfg'') demo_state)\<lparr>lineno := 1, pFileName := Some ''sub.cfg''\<rparr>)
       (join_lines [''@config sub'', ''/sub/a=${b}'', ''/sub/c 3''])
     = Some (ENOENT, demo_in_sub)"
    by (simp add: run_defs demo_defs)
  note T = directive_recursion_frame
  from T [where env = ?E and n = 0 and st = demo_state and f = "''missing.cfg''"] h
  have a: "\<exists>rc st'. ProcessIncludeDirective (ProcessConfigFile ?E (Suc 0)) demo_state
                (Some ''missing.cfg'') = Some (rc, st') \<and> required st' = False"
    by blast
  from T [where env = ?E and n = "Suc (Suc 0)" and st = demo_state
            and line = "''@include main.cfg''"] run
  have b: "pFileName demo_after_main = pFileName demo_state \<and>
           lineno demo_after_main = lineno demo_state"
    by blast
  from T [where env = ?E and n = 0 and st = demo_state and f = "''sub.cfg''"] g inner
  have c: "\<exists>st'. ProcessConfigFile ?E (Suc 0) demo_state (Some ''sub.cfg'')
            = Some (ENOENT, st') \<and> required st' = required demo_in_sub"
    by blast
  from h r a run b g inner c show ?thesis by blast
qed

text \<open>
  The claim as stated fails: with the flag true, the line \<^verbatim>\<open>@include missing.cfg\<close>
  returns with the flag false.
\<close>

theorem required_flag_counterexample:
  "required demo_state \<and>
   ProcessConfigLine (demo_env False) (ProcessConfigFile (demo_env False) (Suc 0)) demo_state
       ''@include missing.cfg''
     = Some (EOK, demo_state\<lparr>required := False, trace := [Enter ''missing.cfg'']\<rparr>) \<and>
   required (demo_state\<lparr>required := False, trace := [Enter ''missing.cfg'']\<rparr>)
     \<noteq> required demo_state"
  by (simp add: run_defs demo_defs)

text \<open>
  \<^bold>\<open>C5.\<close> \<^verbatim>\<open>ProcessVariableAssignment\<close> tests the value pointer against
  \<^verbatim>\<open>NULL\<close>, not the value against the empty string. For the line \<^verbatim>\<open>name\<close>
  followed by one space the saved pointer of \<^verbatim>\<open>strtok_r\<close> is the empty string,
  with glibc and musl alike, so \<^verbatim>\<open>VAR_SetNameValue\<close> is called with the empty
  value and its return code is the result, where the claim has \<open>EINVAL\<close> and no call.
  With glibc's \<^verbatim>\<open>strtok_r\<close> the same happens for the lines \<^verbatim>\<open>name\<close> and
  \<^verbatim>\<open>=5\<close>.
\<close>

theorem ProcessVariableAssignment_empty_value:
  "fst (ProcessVariableAssignment env st ''name '')
     = fst (VAR_SetNameValue env (hVarServer st) ''name'' []) \<and>
   set_calls (trace (snd (ProcessVariableAssignment env st ''name '')))
     = set_calls (trace st) @ [(''name'', [])] \<and>
   ProcessVariableAssignment (demo_env False) demo_state ''name''
     = (EOK, demo_state\<lparr>hVarServer := [(''name'', [])], trace := [SetVar ''name'' []]\<rparr>) \<and>
   ProcessVariableAssignment (demo_env False) demo_state ''=5''
     = (EOK, demo_state\<lparr>hVarServer := [(''5'', [])], trace := [SetVar ''5'' []]\<rparr>)"
proof -
  have "strtok_r (strtok_null_save env) ''name ''
          (if CHR ''='' \<in> set ''name '' then ''='' else '' '') = (Some ''name'', Some [])"
    by (simp add: strtok_r_def)
  from ProcessVariableAssignment_set [OF this, of st]
  have 1: "fst (ProcessVariableAssignment env st ''name '')
     = fst (VAR_SetNameValue env (hVarServer st) ''name'' []) \<and>
   set_calls (trace (snd (ProcessVariableAssignment env st ''name '')))
     = set_calls (trace st) @ [(''name'', [])]" by simp
  have 2: "ProcessVariableAssignment (demo_env False) demo_state ''name''
     = (EOK, demo_state\<lparr>hVarServer := [(''name'', [])], trace := [SetVar ''name'' []]\<rparr>)"
    by (simp add: run_defs demo_defs)
  have 3: "ProcessVariableAssignment (demo_env False) demo_state ''=5''
     = (EOK, demo_state\<lparr>hVarServer := [(''5'', [])], trace := [SetVar ''5'' []]\<rparr>)"
    by (simp add: run_defs demo_defs)
  from 1 2 3 show ?thesis by blast
qed

text \<open>
  \<^bold>\<open>C6.\<close> \<^verbatim>\<open>ProcessVariableAssignment\<close> calls \<^verbatim>\<open>strtok_r\<close> once, with the
  delimiter \<^verbatim>\<open>" "\<close> when the line has no \<^verbatim>\<open>=\<close>, and takes the value from the
  saved pointer, which is one character behind the end of the name. The claim, the
  comments of \<^verbatim>\<open>ProcessConfigData\<close> and \<^verbatim>\<open>ProcessConfigLine\<close> (name and value
  "separated by white space") and the example file in the header of the source, whose
  names and values are aligned by runs of spaces, take a run of spaces to be one
  separator. For the line \<^verbatim>\<open>/sys/network/hostname  MyHostName\<close> of that example the
  variable server is called with the value \<^verbatim>\<open> MyHostName\<close>, the second space
  included, in every environment and state; likewise \<^verbatim>\<open>a  b\<close> sets \<^verbatim>\<open>a\<close> to
  \<^verbatim>\<open> b\<close>.
\<close>

theorem ProcessVariableAssignment_space_run:
  "fst (ProcessVariableAssignment env st ''/sys/network/hostname  MyHostName'')
     = fst (VAR_SetNameValue env (hVarServer st) ''/sys/network/hostname'' '' MyHostName'') \<and>
   set_calls (trace (snd (ProcessVariableAssignment env st ''/sys/network/hostname  MyHostName'')))
     = set_calls (trace st) @ [(''/sys/network/hostname'', '' MyHostName'')] \<and>
   set_calls (trace (snd (ProcessVariableAssignment env st ''a  b'')))
     = set_calls (trace st) @ [(''a'', '' b'')]"
proof -
  have 1: "strtok_r (strtok_null_save env) ''/sys/network/hostname  MyHostName''
          (if CHR ''='' \<in> set ''/sys/network/hostname  MyHostName'' then ''='' else '' '')
        = (Some ''/sys/network/hostname'', Some '' MyHostName'')"
    by (simp add: strtok_r_def)
  have 2: "strtok_r (strtok_null_save env) ''a  b''
          (if CHR ''='' \<in> set ''a  b'' then ''='' else '' '') = (Some ''a'', Some '' b'')"
    by (simp add: strtok_r_def)
  from ProcessVariableAssignment_set [OF 1, of st] ProcessVariableAssignment_set [OF 2, of st]
  show ?thesis by blast
qed

text \<open>
  \<^bold>\<open>X1.\<close> What the code does guarantee: for a line \<^verbatim>\<open>name=value\<close> with a non-empty
  name free of \<^verbatim>\<open>=\<close>, and for a line \<^verbatim>\<open>name value\<close> with a non-empty name free
  of space and \<^verbatim>\<open>=\<close> and a value free of \<^verbatim>\<open>=\<close>, the value being non-empty,
  the variable server gets exactly one call, with exactly that name and that value
  (everything behind the one delimiter character), and its return code is the result.
  When the template engine copies the lines and the server accepts the assignments, the
  input \<^verbatim>\<open>/sys/x 1\n/sys/y=2\n\<close> gives the calls (\<^verbatim>\<open>/sys/x\<close>, \<^verbatim>\<open>1\<close>) and
  (\<^verbatim>\<open>/sys/y\<close>, \<^verbatim>\<open>2\<close>) in this order.
\<close>

theorem ProcessVariableAssignment_split:
  "(name \<noteq> [] \<and> val \<noteq> [] \<and> CHR ''='' \<notin> set name \<longrightarrow>
      fst (ProcessVariableAssignment env st (name @ ''='' @ val))
        = fst (VAR_SetNameValue env (hVarServer st) name val) \<and>
      hVarServer (snd (ProcessVariableAssignment env st (name @ ''='' @ val)))
        = snd (VAR_SetNameValue env (hVarServer st) name val) \<and>
      set_calls (trace (snd (ProcessVariableAssignment env st (name @ ''='' @ val))))
        = set_calls (trace st) @ [(name, val)]) \<and>
   (name \<noteq> [] \<and> val \<noteq> [] \<and> CHR '' '' \<notin> set name \<and> CHR ''='' \<notin> set name \<and>
    CHR ''='' \<notin> set val \<longrightarrow>
      fst (ProcessVariableAssignment env st (name @ '' '' @ val))
        = fst (VAR_SetNameValue env (hVarServer st) name val) \<and>
      hVarServer (snd (ProcessVariableAssignment env st (name @ '' '' @ val)))
        = snd (VAR_SetNameValue env (hVarServer st) name val) \<and>
      set_calls (trace (snd (ProcessVariableAssignment env st (name @ '' '' @ val))))
        = set_calls (trace st) @ [(name, val)]) \<and>
   ((\<forall>h. TEMPLATE_StrToFile env h ''/sys/x 1'' = (EOK, ''/sys/x 1'')) \<and>
    (\<forall>h. TEMPLATE_StrToFile env h ''/sys/y=2'' = (EOK, ''/sys/y=2'')) \<and>
    (\<forall>h. TEMPLATE_StrToFile env h [] = (EOK, [])) \<and>
    (\<forall>h. fst (VAR_SetNameValue env h ''/sys/x'' ''1'') = EOK) \<and>
    (\<forall>h. fst (VAR_SetNameValue env h ''/sys/y'' ''2'') = EOK) \<longrightarrow>
      (\<exists>st'. ProcessConfigData env (ProcessConfigFile env n) st
                (''/sys/x 1'' @ [NL] @ ''/sys/y=2'' @ [NL]) = Some (EOK, st') \<and>
             set_calls (trace st')
               = set_calls (trace st) @ [(''/sys/x'', ''1''), (''/sys/y'', ''2'')]))"
proof -
  have eq: "fst (ProcessVariableAssignment env st (name @ ''='' @ val))
        = fst (VAR_SetNameValue env (hVarServer st) name val) \<and>
      hVarServer (snd (ProcessVariableAssignment env st (name @ ''='' @ val)))
        = snd (VAR_SetNameValue env (hVarServer st) name val) \<and>
      set_calls (trace (snd (ProcessVariableAssignment env st (name @ ''='' @ val))))
        = set_calls (trace st) @ [(name, val)]"
    if "name \<noteq> []" "CHR ''='' \<notin> set name"
  proof (rule ProcessVariableAssignment_set)
    show "strtok_r (strtok_null_save env) (name @ ''='' @ val)
            (if CHR ''='' \<in> set (name @ ''='' @ val) then ''='' else '' '')
          = (Some name, Some val)"
      using strtok_r_split [OF that(2) that(1), of "strtok_null_save env" val] by simp
  qed
  have sp: "fst (ProcessVariableAssignment env st (name @ '' '' @ val))
        = fst (VAR_SetNameValue env (hVarServer st) name val) \<and>
      hVarServer (snd (ProcessVariableAssignment env st (name @ '' '' @ val)))
        = snd (VAR_SetNameValue env (hVarServer st) name val) \<and>
      set_calls (trace (snd (ProcessVariableAssignment env st (name @ '' '' @ val))))
        = set_calls (trace st) @ [(name, val)]"
    if "name \<noteq> []" "CHR '' '' \<notin> set name" "CHR ''='' \<notin> set name" "CHR ''='' \<notin> set val"
  proof (rule ProcessVariableAssignment_set)
    show "strtok_r (strtok_null_save env) (name @ '' '' @ val)
            (if CHR ''='' \<in> set (name @ '' '' @ val) then ''='' else '' '')
          = (Some name, Some val)"
      using strtok_r_split [OF that(2) that(1), of "strtok_null_save env" val] that(3,4)
      by simp
  qed
  have rt: "\<exists>st'. ProcessConfigData env (ProcessConfigFile env n) st
                (''/sys/x 1'' @ [NL] @ ''/sys/y=2'' @ [NL]) = Some (EOK, st') \<and>
             set_calls (trace st')
               = set_calls (trace st) @ [(''/sys/x'', ''1''), (''/sys/y'', ''2'')]"
    if t1: "\<forall>h. TEMPLATE_StrToFile env h ''/sys/x 1'' = (EOK, ''/sys/x 1'')"
    and t2: "\<forall>h. TEMPLATE_StrToFile env h ''/sys/y=2'' = (EOK, ''/sys/y=2'')"
    and t3: "\<forall>h. TEMPLATE_StrToFile env h [] = (EOK, [])"
    and v1: "\<forall>h. fst (VAR_SetNameValue env h ''/sys/x'' ''1'') = EOK"
    and v2: "\<forall>h. fst (VAR_SetNameValue env h ''/sys/y'' ''2'') = EOK"
  proof -
    let ?F = "ProcessConfigFile env n"
    obtain h1 where h1: "VAR_SetNameValue env (hVarServer st) ''/sys/x'' ''1'' = (EOK, h1)"
      using v1 by (metis prod.collapse)
    obtain h2 where h2: "VAR_SetNameValue env h1 ''/sys/y'' ''2'' = (EOK, h2)"
      using v2 by (metis prod.collapse)
    define st1 where "st1 = (emit (SetVar ''/sys/x'' ''1'') (st\<lparr>hVarServer := h1\<rparr>))\<lparr>lineno := lineno st + 1\<rparr>"
    define st2 where "st2 = (emit (SetVar ''/sys/y'' ''2'') (st1\<lparr>hVarServer := h2\<rparr>))\<lparr>lineno := lineno st1 + 1\<rparr>"
    have l1: "ProcessConfigData_line env ?F st EOK ''/sys/x 1'' = Some (EOK, st1)"
      using t1 h1
      by (simp add: ProcessConfigData_line_def ProcessConfigLine_def
          ProcessVariableAssignment_def strtok_r_def st1_def)
    have l2: "ProcessConfigData_line env ?F st1 EOK ''/sys/y=2'' = Some (EOK, st2)"
      using t2 h2
      by (simp add: ProcessConfigData_line_def ProcessConfigLine_def
          ProcessVariableAssignment_def strtok_r_def st2_def st1_def)
    have l3: "ProcessConfigData_line env ?F st2 EOK [] = Some (EOK, st2\<lparr>lineno := lineno st2 + 1\<rparr>)"
      using t3 by (simp add: ProcessConfigData_line_blank)
    have seg: "segments (''/sys/x 1'' @ [NL] @ ''/sys/y=2'' @ [NL]) = [''/sys/x 1'', ''/sys/y=2'', []]"
      by (simp add: segments_def NL_def NUL_def)
    have "ProcessConfigData env ?F st (''/sys/x 1'' @ [NL] @ ''/sys/y=2'' @ [NL])
            = Some (EOK, st2\<lparr>lineno := lineno st2 + 1\<rparr>)"
      unfolding ProcessConfigData_lines seg by (simp add: l1 l2 l3)
    moreover have "set_calls (trace (st2\<lparr>lineno := lineno st2 + 1\<rparr>))
               = set_calls (trace st) @ [(''/sys/x'', ''1''), (''/sys/y'', ''2'')]"
      by (simp add: st2_def st1_def)
    ultimately show ?thesis by blast
  qed
  from eq sp rt show ?thesis by blast
qed

theorem ProcessVariableAssignment_split_witness:
  "''/sys/y'' \<noteq> [] \<and> ''2'' \<noteq> [] \<and> CHR ''='' \<notin> set ''/sys/y'' \<and>
   set_calls (trace (snd (ProcessVariableAssignment (demo_env True) demo_state ''/sys/y=2'')))
     = [(''/sys/y'', ''2'')] \<and>
   ''/sys/x'' \<noteq> [] \<and> ''  1'' \<noteq> [] \<and> CHR '' '' \<notin> set ''/sys/x'' \<and>
   CHR ''='' \<notin> set ''/sys/x'' \<and> CHR ''='' \<notin> set ''  1'' \<and>
   set_calls (trace (snd (ProcessVariableAssignment (demo_env True) demo_state ''/sys/x   1'')))
     = [(''/sys/x'', ''  1'')] \<and>
   (\<exists>st'. ProcessConfigData (demo_env True) (ProcessConfigFile (demo_env True) 0) demo_state
             roundtrip_buffer = Some (EOK, st') \<and>
          set_calls (trace st') = [(''/sys/x'', ''1''), (''/sys/y'', ''2'')])"
proof -
  let ?E = "demo_env True"
  have h1: "''/sys/y'' \<noteq> [] \<and> ''2'' \<noteq> [] \<and> CHR ''='' \<notin> set ''/sys/y''" by simp
  have h2: "''/sys/x'' \<noteq> [] \<and> ''  1'' \<noteq> [] \<and> CHR '' '' \<notin> set ''/sys/x'' \<and>
            CHR ''='' \<notin> set ''/sys/x'' \<and> CHR ''='' \<notin> set ''  1''" by simp
  have h3: "(\<forall>h. TEMPLATE_StrToFile ?E h ''/sys/x 1'' = (EOK, ''/sys/x 1'')) \<and>
    (\<forall>h. TEMPLATE_StrToFile ?E h ''/sys/y=2'' = (EOK, ''/sys/y=2'')) \<and>
    (\<forall>h. TEMPLATE_StrToFile ?E h [] = (EOK, [])) \<and>
    (\<forall>h. fst (VAR_SetNameValue ?E h ''/sys/x'' ''1'') = EOK) \<and>
    (\<forall>h. fst (VAR_SetNameValue ?E h ''/sys/y'' ''2'') = EOK)"
    by (simp add: demo_env_def)
  have tr: "set_calls (trace demo_state) = []" by (simp add: demo_state_def)
  note A = ProcessVariableAssignment_split
    [where env = ?E and st = demo_state and n = 0 and name = "''/sys/y''" and val = "''2''"]
  note B = ProcessVariableAssignment_split
    [where env = ?E and st = demo_state and n = 0 and name = "''/sys/x''" and val = "''  1''"]
  from A h1 have a: "set_calls (trace (snd (ProcessVariableAssignment ?E demo_state
      (''/sys/y'' @ ''='' @ ''2'')))) = set_calls (trace demo_state) @ [(''/sys/y'', ''2'')]"
    by blast
  from B h2 have b: "set_calls (trace (snd (ProcessVariableAssignment ?E demo_state
      (''/sys/x'' @ '' '' @ ''  1'')))) = set_calls (trace demo_state) @ [(''/sys/x'', ''  1'')]"
    by blast
  from A h3 have c: "\<exists>st'. ProcessConfigData ?E (ProcessConfigFile ?E 0) demo_state
             (''/sys/x 1'' @ [NL] @ ''/sys/y=2'' @ [NL]) = Some (EOK, st') \<and>
          set_calls (trace st') = set_calls (trace demo_state) @ [(''/sys/x'', ''1''), (''/sys/y'', ''2'')]"
    by blast
  from a b c h1 h2 show ?thesis
    unfolding roundtrip_buffer_def tr by simp
qed

text \<open>
  \<^bold>\<open>C7.\<close> \<^verbatim>\<open>GetConfigData\<close> yields no data when the size of the file is below the
  length of the tag \<^verbatim>\<open>@config\<close>, when the file cannot be opened, and when its leading
  bytes differ from the tag, whatever follows them. Data is returned only for a file
  that passes the size test and starts with the tag. (For a stream that delivers fewer
  bytes than the tag is long, the mismatch is the model's reading of the uninitialised
  rest of the C buffer, see \<open>IsConfigFile\<close>.)
\<close>

theorem GetConfigData_tag_check:
  "(GetFileSize env filename < length CONFIG_TAG \<longrightarrow> GetConfigData env filename = None) \<and>
   (fopen_read env filename = None \<longrightarrow> GetConfigData env filename = None) \<and>
   (\<forall>content. fopen_read env filename = Some content \<and>
        take (length CONFIG_TAG) content \<noteq> CONFIG_TAG \<longrightarrow> GetConfigData env filename = None) \<and>
   (\<forall>lead rest. fopen_read env filename = Some (lead @ rest) \<and>
        length lead = length CONFIG_TAG \<and> lead \<noteq> CONFIG_TAG \<longrightarrow>
        GetConfigData env filename = None) \<and>
   (\<forall>d. GetConfigData env filename = Some d \<longrightarrow>
        length CONFIG_TAG \<le> GetFileSize env filename \<and>
        (\<exists>content. fopen_read env filename = Some content \<and>
           take (length CONFIG_TAG) content = CONFIG_TAG \<and>
           d = take (GetFileSize env filename) content))"
  by (auto simp: GetConfigData_def IsConfigFile_def ReadConfigData_def Let_def
      split: option.splits if_splits)

theorem GetConfigData_tag_check_witness:
  "GetFileSize (demo_env False) ''tiny'' < length CONFIG_TAG \<and>
   GetConfigData (demo_env False) ''tiny'' = None \<and>
   fopen_read (demo_env False) ''notes.txt'' = Some (''plain t'' @ ''ext, no tag'') \<and>
   length ''plain t'' = length CONFIG_TAG \<and> ''plain t'' \<noteq> CONFIG_TAG \<and>
   GetConfigData (demo_env False) ''notes.txt'' = None \<and>
   GetConfigData (demo_env False) ''good.cfg'' = Some (join_lines [''@config good'', ''/net/dhcp 1'']) \<and>
   length CONFIG_TAG \<le> GetFileSize (demo_env False) ''good.cfg'' \<and>
   fopen_read (demo_env False) ''missing.cfg'' = None \<and>
   GetConfigData (demo_env False) ''missing.cfg'' = None \<and>
   fopen_read (demo_env False) ''.'' = Some [] \<and>
   take (length CONFIG_TAG) [] \<noteq> CONFIG_TAG \<and>
   GetConfigData (demo_env False) ''.'' = None"
proof -
  have m: "fopen_read (demo_env False) ''missing.cfg'' = None"
    by (simp add: demo_env_def demo_files_def)
  from m GetConfigData_tag_check [of "demo_env False" "''missing.cfg''"]
  have m': "GetConfigData (demo_env False) ''missing.cfg'' = None" by blast
  have dot: "fopen_read (demo_env False) ''.'' = Some []"
    by (simp add: demo_env_def demo_files_def)
  have dot': "take (length CONFIG_TAG) [] \<noteq> CONFIG_TAG"
    by (simp add: CONFIG_TAG_def)
  from dot dot' GetConfigData_tag_check [of "demo_env False" "''.''"]
  have dot'': "GetConfigData (demo_env False) ''.'' = None" by blast
  have a: "GetFileSize (demo_env False) ''tiny'' < length CONFIG_TAG"
    by (simp add: demo_lookup CONFIG_TAG_def)
  have b: "fopen_read (demo_env False) ''notes.txt'' = Some (''plain t'' @ ''ext, no tag'')"
    by (simp add: demo_lookup)
  have c: "length ''plain t'' = length CONFIG_TAG \<and> ''plain t'' \<noteq> CONFIG_TAG"
    by (simp add: CONFIG_TAG_def)
  have g: "GetConfigData (demo_env False) ''good.cfg''
             = Some (join_lines [''@config good'', ''/net/dhcp 1''])"
    by (simp add: GetConfigData_def GetFileSize_def IsConfigFile_def ReadConfigData_def demo_defs)
  from a GetConfigData_tag_check [of "demo_env False" "''tiny''"]
  have d: "GetConfigData (demo_env False) ''tiny'' = None" by blast
  from b c GetConfigData_tag_check [of "demo_env False" "''notes.txt''"]
  have e: "GetConfigData (demo_env False) ''notes.txt'' = None" by blast
  from g GetConfigData_tag_check [of "demo_env False" "''good.cfg''"]
  have f: "length CONFIG_TAG \<le> GetFileSize (demo_env False) ''good.cfg''" by blast
  from a b c d e f g m m' dot dot' dot'' show ?thesis by blast
qed



text \<open>
  \<^bold>\<open>C9.\<close> The directory name is used for \<^verbatim>\<open>opendir\<close> only. For every listing
  and every function in the place of \<^verbatim>\<open>ProcessConfigFile\<close> the directive is the
  loop over the listing, and one step of the loop calls the function with the bare
  \<^verbatim>\<open>d_name\<close> of the entry. So a function that records the name it is handed records
  exactly the entries of the listing, in order, whatever it returns; two directories with
  the same listing are processed alike; and when the bare names are not configuration
  files where the process runs, nothing is loaded, whatever the files of these names
  inside the directory hold.
\<close>

theorem readdir_hands_bare_names:
  "(\<forall>es. opendir_entries env d = Some es \<longrightarrow>
      ProcessIncludeDirDirective env file st (Some d)
        = map_option (Pair EOK) (readdir_loop file st es)) \<and>
   (\<forall>e es. readdir_loop file st (e # es) =
      (case file (st\<lparr>required := False\<rparr>) (Some e) of
         None \<Rightarrow> None
       | Some (rc, st1) \<Rightarrow> readdir_loop file st1 es)) \<and>
   (\<forall>es es'. readdir_loop file st (es @ es') =
      (case readdir_loop file st es of
         None \<Rightarrow> None
       | Some st1 \<Rightarrow> readdir_loop file st1 es')) \<and>
   (opendir_entries env d = opendir_entries env d' \<longrightarrow>
      ProcessIncludeDirDirective env file st (Some d)
        = ProcessIncludeDirDirective env file st (Some d')) \<and>
   (\<forall>es rc. opendir_entries env d = Some es \<longrightarrow>
      ProcessIncludeDirDirective env (record_names rc) st (Some d)
        = Some (EOK, skip_entries st es)) \<and>
   (\<forall>es. opendir_entries env d = Some es \<and> (\<forall>e\<in>set es. GetConfigData env e = None) \<longrightarrow>
      ProcessIncludeDirDirective env (ProcessConfigFile env (Suc n)) st (Some d)
        = Some (EOK, skip_entries st es))"
proof -
  have r: "ProcessIncludeDirDirective env (record_names rc) st (Some d)
             = Some (EOK, skip_entries st es)"
    if "opendir_entries env d = Some es" for es rc
    using that by (simp add: ProcessIncludeDirDirective_loop readdir_loop_record_names)
  have a: "ProcessIncludeDirDirective env file st (Some d)
             = map_option (Pair EOK) (readdir_loop file st es)"
    if "opendir_entries env d = Some es" for es
    using that by (simp add: ProcessIncludeDirDirective_loop)
  have b: "readdir_loop file st (e # es) =
      (case file (st\<lparr>required := False\<rparr>) (Some e) of
         None \<Rightarrow> None
       | Some (rc, st1) \<Rightarrow> readdir_loop file st1 es)" for e es
    by simp
  have c: "readdir_loop file st (es @ es') =
      (case readdir_loop file st es of
         None \<Rightarrow> None
       | Some st1 \<Rightarrow> readdir_loop file st1 es')" for es es'
    by (rule readdir_loop_append)
  have d: "ProcessIncludeDirDirective env file st (Some d)
             = ProcessIncludeDirDirective env file st (Some d')"
    if "opendir_entries env d = opendir_entries env d'"
    using that by (simp add: ProcessIncludeDirDirective_loop)
  have e: "ProcessIncludeDirDirective env (ProcessConfigFile env (Suc n)) st (Some d)
             = Some (EOK, skip_entries st es)"
    if "opendir_entries env d = Some es" "\<forall>e\<in>set es. GetConfigData env e = None" for es
    using that(1) readdir_loop_no_config [OF that(2), of n st]
    by (simp add: ProcessIncludeDirDirective_loop del: ProcessConfigFile.simps)
  from a b c d e r show ?thesis by blast
qed

theorem readdir_hands_bare_names_witness:
  "opendir_entries (demo_env False) ''conf.d'' = Some [''only.cfg''] \<and>
   ProcessIncludeDirDirective (demo_env False) (record_names EINVAL) demo_state (Some ''conf.d'')
     = Some (EOK, demo_state\<lparr>required := False, trace := [Enter ''only.cfg'']\<rparr>) \<and>
   opendir_entries (demo_env False) ''conf.d'' = opendir_entries (demo_env False) ''other.d'' \<and>
   ProcessIncludeDirDirective (demo_env False) (ProcessConfigFile (demo_env False) (Suc 0))
       demo_state (Some ''conf.d'')
     = ProcessIncludeDirDirective (demo_env False) (ProcessConfigFile (demo_env False) (Suc 0))
         demo_state (Some ''other.d'') \<and>
   GetConfigData (demo_env False) ''only.cfg'' = None \<and>
   GetConfigData (demo_env False) ''conf.d/only.cfg''
     = Some (join_lines [''@config only'', ''/only 1'']) \<and>
   ProcessIncludeDirDirective (demo_env False) (ProcessConfigFile (demo_env False) (Suc 0))
       demo_state (Some ''conf.d'')
     = Some (EOK, demo_state\<lparr>required := False, trace := [Enter ''only.cfg'']\<rparr>) \<and>
   set_calls (trace (demo_state\<lparr>required := False, trace := [Enter ''only.cfg'']\<rparr>)) = [] \<and>
   opendir_entries (demo_env False) ''many.d''
     = Some [''notes.txt'', ''tiny'', ''.'', ''..'', ''missing.cfg''] \<and>
   ProcessIncludeDirDirective (demo_env False) (record_names ENOTSUP) demo_state
       (Some ''many.d'') = Some (EOK, demo_after_many) \<and>
   GetConfigData (demo_env False) ''notes.txt'' = None \<and>
   GetConfigData (demo_env False) ''tiny'' = None \<and>
   GetConfigData (demo_env False) ''.'' = None \<and>
   GetConfigData (demo_env False) ''..'' = None \<and>
   GetConfigData (demo_env False) ''missing.cfg'' = None \<and>
   ProcessIncludeDirDirective (demo_env False) (ProcessConfigFile (demo_env False) (Suc 0))
       demo_state (Some ''many.d'') = Some (EOK, demo_after_many) \<and>
   trace demo_after_many
     = map Enter [''notes.txt'', ''tiny'', ''.'', ''..'', ''missing.cfg'']"
proof -
  let ?E = "demo_env False"
  let ?F = "ProcessConfigFile ?E (Suc 0)"
  have o1: "opendir_entries ?E ''conf.d'' = Some [''only.cfg'']"
    and o2: "opendir_entries ?E ''conf.d'' = opendir_entries ?E ''other.d''"
    and o4: "opendir_entries ?E ''many.d''
               = Some [''notes.txt'', ''tiny'', ''.'', ''..'', ''missing.cfg'']"
    by (simp_all add: demo_defs)
  have g0: "GetConfigData ?E ''only.cfg'' = None"
    and g1: "GetConfigData ?E ''.'' = None" and g2: "GetConfigData ?E ''..'' = None"
    and g3: "GetConfigData ?E ''notes.txt'' = None" and g4: "GetConfigData ?E ''tiny'' = None"
    and g5: "GetConfigData ?E ''missing.cfg'' = None"
    by (simp_all add: GetConfigData_def GetFileSize_def IsConfigFile_def demo_defs)
  have g6: "GetConfigData ?E ''conf.d/only.cfg'' = Some (join_lines [''@config only'', ''/only 1''])"
    by (simp add: GetConfigData_def GetFileSize_def IsConfigFile_def ReadConfigData_def demo_defs)
  have k0: "skip_entries demo_state [''only.cfg'']
              = demo_state\<lparr>required := False, trace := [Enter ''only.cfg'']\<rparr>"
    and k3: "skip_entries demo_state [''notes.txt'', ''tiny'', ''.'', ''..'', ''missing.cfg'']
               = demo_after_many"
    by (simp_all add: skip_entries_def demo_defs)
  have sc: "set_calls (trace (demo_state\<lparr>required := False, trace := [Enter ''only.cfg'']\<rparr>)) = []"
    by simp
  have tr: "trace demo_after_many
     = map Enter [''notes.txt'', ''tiny'', ''.'', ''..'', ''missing.cfg'']"
    by (simp add: demo_after_many_def)
  have b0: "\<forall>e\<in>set [''only.cfg'']. GetConfigData ?E e = None" using g0 by simp
  have b3: "\<forall>e\<in>set [''notes.txt'', ''tiny'', ''.'', ''..'', ''missing.cfg''].
              GetConfigData ?E e = None"
    using g1 g2 g3 g4 g5 by simp
  note T = readdir_hands_bare_names [where env = ?E and st = demo_state and n = 0]
  from T [where d = "''conf.d''" and d' = "''other.d''" and ?file = ?F] o1
  have "ProcessIncludeDirDirective ?E (record_names EINVAL) demo_state (Some ''conf.d'')
          = Some (EOK, skip_entries demo_state [''only.cfg''])"
    by blast
  then have a: "ProcessIncludeDirDirective ?E (record_names EINVAL) demo_state (Some ''conf.d'')
     = Some (EOK, demo_state\<lparr>required := False, trace := [Enter ''only.cfg'']\<rparr>)"
    unfolding k0 .
  from T [where d = "''conf.d''" and d' = "''other.d''" and ?file = ?F] o2
  have same: "ProcessIncludeDirDirective ?E ?F demo_state (Some ''conf.d'')
     = ProcessIncludeDirDirective ?E ?F demo_state (Some ''other.d'')"
    by blast
  from T [where d = "''conf.d''" and d' = "''other.d''" and ?file = ?F] o1 b0
  have "ProcessIncludeDirDirective ?E ?F demo_state (Some ''conf.d'')
          = Some (EOK, skip_entries demo_state [''only.cfg''])"
    by blast
  then have c: "ProcessIncludeDirDirective ?E ?F demo_state (Some ''conf.d'')
     = Some (EOK, demo_state\<lparr>required := False, trace := [Enter ''only.cfg'']\<rparr>)"
    unfolding k0 .
  from T [where d = "''many.d''" and d' = "''other.d''" and ?file = ?F] o4
  have "ProcessIncludeDirDirective ?E (record_names ENOTSUP) demo_state (Some ''many.d'')
          = Some (EOK, skip_entries demo_state
                         [''notes.txt'', ''tiny'', ''.'', ''..'', ''missing.cfg''])"
    by blast
  then have d: "ProcessIncludeDirDirective ?E (record_names ENOTSUP) demo_state (Some ''many.d'')
                  = Some (EOK, demo_after_many)"
    unfolding k3 .
  from T [where d = "''many.d''" and d' = "''other.d''" and ?file = ?F] o4 b3
  have "ProcessIncludeDirDirective ?E ?F demo_state (Some ''many.d'')
          = Some (EOK, skip_entries demo_state
                         [''notes.txt'', ''tiny'', ''.'', ''..'', ''missing.cfg''])"
    by blast
  then have e: "ProcessIncludeDirDirective ?E ?F demo_state (Some ''many.d'')
                  = Some (EOK, demo_after_many)"
    unfolding k3 .
  from o1 a o2 same g0 g6 c sc o4 d g1 g2 g3 g4 g5 e tr show ?thesis by blast
qed




end
